theory Spec2Isabelle
  imports Complex_Main "HOL-Library.Word"
begin

chapter \<open>The model\<close>

section \<open>Byte arrays and JavaScript values\<close>

text \<open>
  A \<^verbatim>\<open>Uint8Array\<close> is a list of 8-bit words. A JavaScript string is a \<open>string\<close>; the
  codec below only tells hexadecimal digits (all ASCII) from other characters, so bytes
  stand for code units. An exception is a value of \<open>js_error\<close> carrying its message.
\<close>

type_synonym u8 = "8 word"
type_synonym Uint8Array = "u8 list"

datatype js_error = Error string | RangeError string

fun error_message :: "js_error \<Rightarrow> string" where
  "error_message (Error m) = m"
| "error_message (RangeError m) = m"

section \<open>Hexadecimal export and import (utils/sdk-loader, SignatureVerificationSection)\<close>

subsection \<open>\<^verbatim>\<open>arrayToHex\<close>\<close>

definition hex_digits :: string where
  "hex_digits = ''0123456789abcdef''"

text \<open>\<^verbatim>\<open>b.toString(16)\<close> for a non-negative integer: lower-case digits, no leading zero.\<close>

fun toString16 :: "nat \<Rightarrow> string" where
  "toString16 n =
     (if n < 16 then [hex_digits ! n]
      else toString16 (n div 16) @ [hex_digits ! (n mod 16)])"

declare toString16.simps [simp del]

text \<open>\<^verbatim>\<open>s.padStart(n, p)\<close>: the filler is repeated and cut to the missing length.\<close>

definition padStart :: "nat \<Rightarrow> string \<Rightarrow> string \<Rightarrow> string" where
  "padStart n p s =
     (if n \<le> length s \<or> p = [] then s
      else take (n - length s) (concat (replicate (n - length s) p)) @ s)"

text \<open>
  \<^verbatim>\<open>
  export const arrayToHex = (arr: Uint8Array, length: number = 32): string => {
    return Array.from(arr.slice(0, length))
      .map(b => b.toString(16).padStart(2, '0'))
      .join('');
  };
  \<close>
  Every caller passes a non-negative integer \<open>length\<close> (16, 32 or the default), for which
  \<^verbatim>\<open>slice(0, length)\<close> is \<open>take\<close>.
\<close>

definition arrayToHex :: "Uint8Array \<Rightarrow> nat \<Rightarrow> string" where
  "arrayToHex arr len = concat (map (\<lambda>b. padStart 2 ''0'' (toString16 (unat b))) (take len arr))"

text \<open>The call \<^verbatim>\<open>arrayToHex(pubKey)\<close> of the export path: the default \<open>length = 32\<close>.\<close>

definition arrayToHex_default :: "Uint8Array \<Rightarrow> string" where
  "arrayToHex_default arr = arrayToHex arr 32"

text \<open>
  The storage path (\<^verbatim>\<open>handleSaveKeys\<close>) writes the same encoding without the slice:
  \<^verbatim>\<open>Array.from(publicKey).map((b) => b.toString(16).padStart(2, '0')).join('')\<close>.
\<close>

definition storage_hex :: "Uint8Array \<Rightarrow> string" where
  "storage_hex publicKey = concat (map (\<lambda>b. padStart 2 ''0'' (toString16 (unat b))) publicKey)"

subsection \<open>\<^verbatim>\<open>hexToUint8Array\<close>\<close>

text \<open>The character class \<^verbatim>\<open>[0-9a-fA-F]\<close> and the value of a digit in it.\<close>

definition is_hex_digit :: "char \<Rightarrow> bool" where
  "is_hex_digit c =
     (let k = (of_char c :: nat)
      in (48 \<le> k \<and> k \<le> 57) \<or> (97 \<le> k \<and> k \<le> 102) \<or> (65 \<le> k \<and> k \<le> 70))"

definition digit_value :: "char \<Rightarrow> nat" where
  "digit_value c =
     (let k = (of_char c :: nat)
      in if k \<le> 57 then k - 48 else if 97 \<le> k then k - 87 else k - 55)"

text \<open>
  \<^verbatim>\<open>parseInt(s, 16)\<close> reads the longest prefix of hexadecimal digits; \<open>None\<close> is \<^verbatim>\<open>NaN\<close>
  (no digit at all). Its callers pass pieces of a string that holds hexadecimal digits
  only, so leading white space, a sign and a \<^verbatim>\<open>0x\<close> prefix do not occur and are not
  modelled.
\<close>

definition parseInt16 :: "string \<Rightarrow> nat option" where
  "parseInt16 s =
     (let ds = takeWhile is_hex_digit s
      in if ds = [] then None else Some (foldl (\<lambda>acc c. 16 * acc + digit_value c) 0 ds))"

text \<open>\<^verbatim>\<open>s.substr(i, n)\<close> for \<open>0 \<le> i\<close>.\<close>

definition substr :: "string \<Rightarrow> nat \<Rightarrow> nat \<Rightarrow> string" where
  "substr s i n = take n (drop i s)"

text \<open>
  \<^verbatim>\<open>new Uint8Array(len)\<close> with a number: the length is \<^verbatim>\<open>ToIndex(len)\<close>
  (ECMAScript 2017 and later), which truncates towards zero and throws a
  \<^verbatim>\<open>RangeError\<close> for a negative result. The quotient \<^verbatim>\<open>cleanHex.length / 2\<close> is
  exact in floating point, so the number is a rational here. \<^verbatim>\<open>ToIndex\<close> also rejects
  values above \<open>2^53 - 1\<close>; a string has at most \<open>2^53 - 1\<close> code units, half its length
  never gets there, and the bound is left out.
\<close>

definition ToIndex :: "rat \<Rightarrow> js_error + nat" where
  "ToIndex v =
     (let integer = (if v < 0 then \<lceil>v\<rceil> else \<lfloor>v\<rfloor>)
      in if integer < 0 then Inl (RangeError ''Invalid typed array length'')
         else Inr (nat integer))"

definition new_Uint8Array :: "rat \<Rightarrow> js_error + Uint8Array" where
  "new_Uint8Array len =
     (case ToIndex len of Inl e \<Rightarrow> Inl e | Inr n \<Rightarrow> Inr (replicate n 0))"

text \<open>
  \<^verbatim>\<open>bytes[k] = v\<close> on a typed array: an index outside the array is ignored; the value
  is converted by \<^verbatim>\<open>ToUint8\<close> (\<^verbatim>\<open>NaN\<close> becomes 0, an integer is taken modulo 256).
\<close>

definition typed_set :: "Uint8Array \<Rightarrow> nat \<Rightarrow> nat option \<Rightarrow> Uint8Array" where
  "typed_set bytes k v =
     (if k < length bytes
      then bytes[k := (case v of None \<Rightarrow> 0 | Some n \<Rightarrow> of_nat n)]
      else bytes)"

text \<open>
  \<^verbatim>\<open>
  for (let i = 0; i < cleanHex.length; i += 2) {
    bytes[i / 2] = parseInt(cleanHex.substr(i, 2), 16);
  }
  \<close>
  \<open>i\<close> is even throughout, so \<^verbatim>\<open>i / 2\<close> is the integer \<open>i div 2\<close>.
\<close>

function hex_loop :: "string \<Rightarrow> nat \<Rightarrow> Uint8Array \<Rightarrow> Uint8Array" where
  "hex_loop cleanHex i bytes =
     (if i < length cleanHex
      then hex_loop cleanHex (i + 2) (typed_set bytes (i div 2) (parseInt16 (substr cleanHex i 2)))
      else bytes)"
  by pat_completeness auto
termination
  by (relation "measure (\<lambda>(cleanHex, i, bytes). length cleanHex - i)") auto

declare hex_loop.simps [simp del]

text \<open>
  \<^verbatim>\<open>
  const hexToUint8Array = (hex: string): Uint8Array => {
    const cleanHex = hex.replace(/[^0-9a-fA-F]/g, '');
    const bytes = new Uint8Array(cleanHex.length / 2);
    for (...) {...}
    return bytes;
  };
  \<close>
\<close>

definition hexToUint8Array :: "string \<Rightarrow> js_error + Uint8Array" where
  "hexToUint8Array hex =
     (let cleanHex = filter is_hex_digit hex
      in case new_Uint8Array (of_nat (length cleanHex) / 2) of
           Inl e \<Rightarrow> Inl e
         | Inr bytes \<Rightarrow> Inr (hex_loop cleanHex 0 bytes))"

text \<open>
  The bytes that the loop stores, read off the cleaned string two digits at a time. It is
  what \<open>hexToUint8Array\<close> is compared with in the proofs.
\<close>

fun pair_bytes :: "string \<Rightarrow> Uint8Array" where
  "pair_bytes (a # b # rest) = of_nat (16 * digit_value a + digit_value b) # pair_bytes rest"
| "pair_bytes _ = []"

section \<open>The application state (App.tsx)\<close>

text \<open>
  \<^verbatim>\<open>
  const [sdk, setSdk] = useState<KeySDK | null>(null);
  const [ecdsaKeyId, setEcdsaKeyId] = useState<string | null>(null);
  const [mldsaKeyId, setMldsaKeyId] = useState<string | null>(null);
  const [stats, setStats] = useState<Stats>({ keysCreated: 0, signaturesCreated: 0, verifications: 0 });
  \<close>
  The two key identifiers are also the properties that \<open>App\<close> hands to its sections, so
  they form a record of their own that \<open>App\<close> extends. The counters are JavaScript
  numbers that only count up from 0 in steps of 1; they are natural numbers here, which
  is exact below \<open>2^53\<close>.
\<close>

record Stats =
  keysCreated :: nat
  signaturesCreated :: nat
  verifications :: nat

record KeyIds =
  ecdsaKeyId :: "string option"
  mldsaKeyId :: "string option"

record 'sdk App = KeyIds +
  sdk :: "'sdk option"
  stats :: Stats

datatype key_type = Ecdsa | Mldsa

definition App_init :: "'sdk App" where
  "App_init =
     \<lparr>ecdsaKeyId = None, mldsaKeyId = None, sdk = None,
      stats = \<lparr>keysCreated = 0, signaturesCreated = 0, verifications = 0\<rparr>\<rparr>"

text \<open>A \<^verbatim>\<open>string | null\<close> in a condition: \<^verbatim>\<open>null\<close> and the empty string are falsy.\<close>

definition truthy :: "string option \<Rightarrow> bool" where
  "truthy v = (case v of None \<Rightarrow> False | Some s \<Rightarrow> s \<noteq> [])"

text \<open>
  \<^verbatim>\<open>
  const handleKeyCreated = (keyId: string, type: 'ecdsa' | 'mldsa') => {
    if (type === 'ecdsa') { setEcdsaKeyId(keyId); } else { setMldsaKeyId(keyId); }
    setStats((prev) => ({ ...prev, keysCreated: prev.keysCreated + 1 }));
  };
  \<close>
\<close>

definition handleKeyCreated :: "string \<Rightarrow> key_type \<Rightarrow> 'sdk App \<Rightarrow> 'sdk App" where
  "handleKeyCreated keyId ty a =
     (let a1 = (if ty = Ecdsa then a\<lparr>ecdsaKeyId := Some keyId\<rparr> else a\<lparr>mldsaKeyId := Some keyId\<rparr>)
      in a1\<lparr>stats := (stats a1)\<lparr>keysCreated := keysCreated (stats a1) + 1\<rparr>\<rparr>)"

text \<open>
  \<^verbatim>\<open>
  const handleStatsUpdate = () => {
    setStats((prev) => ({
      ...prev,
      signaturesCreated: prev.signaturesCreated + 1,
      verifications: prev.verifications + 1,
    }));
  };
  \<close>
\<close>

definition handleStatsUpdate :: "'sdk App \<Rightarrow> 'sdk App" where
  "handleStatsUpdate a =
     a\<lparr>stats := (stats a)\<lparr>signaturesCreated := signaturesCreated (stats a) + 1,
                            verifications := verifications (stats a) + 1\<rparr>\<rparr>"

text \<open>
  \<^verbatim>\<open>
  const handleKeysRotated = (newEcdsaKeyId: string | null, newMldsaKeyId: string | null) => {
    if (newEcdsaKeyId) {
      setEcdsaKeyId(newEcdsaKeyId);
      setStats((prev) => ({ ...prev, keysCreated: prev.keysCreated + 1 }));
    }
    if (newMldsaKeyId) {
      setMldsaKeyId(newMldsaKeyId);
      setStats((prev) => ({ ...prev, keysCreated: prev.keysCreated + 1 }));
    }
  };
  \<close>
\<close>

definition handleKeysRotated :: "string option \<Rightarrow> string option \<Rightarrow> 'sdk App \<Rightarrow> 'sdk App" where
  "handleKeysRotated newEcdsaKeyId newMldsaKeyId a =
     (let a1 = (if truthy newEcdsaKeyId
                then a\<lparr>ecdsaKeyId := newEcdsaKeyId,
                       stats := (stats a)\<lparr>keysCreated := keysCreated (stats a) + 1\<rparr>\<rparr>
                else a)
      in if truthy newMldsaKeyId
         then a1\<lparr>mldsaKeyId := newMldsaKeyId,
                 stats := (stats a1)\<lparr>keysCreated := keysCreated (stats a1) + 1\<rparr>\<rparr>
         else a1)"

text \<open>
  Everything that can happen to the state of \<open>App\<close>: \<^verbatim>\<open>setSdk\<close> (handed to
  \<^verbatim>\<open>InitializeSection\<close> as \<^verbatim>\<open>onInitialized\<close>) and the three handlers, which the
  sections call back. A reachable state is the initial state after any sequence of them.
\<close>

datatype 'sdk app_event =
    Initialized 'sdk
  | KeyCreated string key_type
  | StatsUpdate
  | KeysRotated "string option" "string option"

fun app_step :: "'sdk App \<Rightarrow> 'sdk app_event \<Rightarrow> 'sdk App" where
  "app_step a (Initialized k) = a\<lparr>sdk := Some k\<rparr>"
| "app_step a (KeyCreated keyId ty) = handleKeyCreated keyId ty a"
| "app_step a StatsUpdate = handleStatsUpdate a"
| "app_step a (KeysRotated e m) = handleKeysRotated e m a"

definition app_run :: "'sdk app_event list \<Rightarrow> 'sdk App" where
  "app_run evs = foldl app_step App_init evs"

section \<open>Loading the SDK (utils/sdk-loader)\<close>

text \<open>
  The part of the browser that \<^verbatim>\<open>loadSDKFromCDN\<close> touches: the global
  \<^verbatim>\<open>window.LumenKeys\<close> and the children of \<^verbatim>\<open>document.head\<close>. What the network and
  the fetched script do is the environment's choice: the script loads and leaves
  \<^verbatim>\<open>window.LumenKeys\<close> set or unset (\<^verbatim>\<open>onload\<close>), or it fails (\<^verbatim>\<open>onerror\<close>).
\<close>

record script =
  src :: string
  async :: bool

record 'g Window =
  LumenKeys :: "'g option"
  document_head :: "script list"

datatype 'g script_outcome = Loaded "'g option" | Failed

text \<open>
  \<^verbatim>\<open>
  export const loadSDKFromCDN = (): Promise<void> => {
    return new Promise((resolve, reject) => {
      if (window.LumenKeys) { resolve(); return; }
      const script = document.createElement('script');
      script.src = 'https://unpkg.com/@smartledger/keys@1.5.1/dist/lumen-keys.min.js';
      script.async = true;
      script.onload = () => {
        if (window.LumenKeys) { resolve(); }
        else { reject(new Error('LumenKeys SDK failed to load')); }
      };
      script.onerror = () => { reject(new Error('Failed to load SDK from CDN')); };
      document.head.appendChild(script);
    });
  };
  \<close>
  The result is how the promise settles: \<open>Inr ()\<close> resolved, \<open>Inl e\<close> rejected with \<open>e\<close>.
\<close>

definition loadSDKFromCDN :: "'g script_outcome \<Rightarrow> 'g Window \<Rightarrow> (js_error + unit) \<times> 'g Window" where
  "loadSDKFromCDN outcome w =
     (case LumenKeys w of
        Some g \<Rightarrow> (Inr (), w)
      | None \<Rightarrow>
          (let script = \<lparr>src = ''https://unpkg.com/@smartledger/keys@1.5.1/dist/lumen-keys.min.js'',
                         async = True\<rparr>;
               w1 = w\<lparr>document_head := document_head w @ [script]\<rparr>
           in case outcome of
                Loaded g \<Rightarrow>
                  (let w2 = w1\<lparr>LumenKeys := g\<rparr>
                   in if LumenKeys w2 \<noteq> None then (Inr (), w2)
                      else (Inl (Error ''LumenKeys SDK failed to load''), w2))
              | Failed \<Rightarrow> (Inl (Error ''Failed to load SDK from CDN''), w1)))"

section \<open>The SDK interface (types/sdk)\<close>

text \<open>
  \<^verbatim>\<open>
  export type SignatureSuite = 'bsv-ecdsa-secp256k1' | 'ml-dsa-44' | 'ml-dsa-65' | 'ml-dsa-87';
  export interface KeyMeta { keyId: string; suiteId: SignatureSuite; usage: string[];
                             status: 'active' | 'inactive'; }
  export interface KeyRecord { meta: KeyMeta; publicKey: Uint8Array; }
  \<close>
\<close>

datatype SignatureSuite = bsv_ecdsa_secp256k1 | ml_dsa_44 | ml_dsa_65 | ml_dsa_87

fun suite_string :: "SignatureSuite \<Rightarrow> string" where
  "suite_string bsv_ecdsa_secp256k1 = ''bsv-ecdsa-secp256k1''"
| "suite_string ml_dsa_44 = ''ml-dsa-44''"
| "suite_string ml_dsa_65 = ''ml-dsa-65''"
| "suite_string ml_dsa_87 = ''ml-dsa-87''"

datatype key_status = active | inactive

fun status_string :: "key_status \<Rightarrow> string" where
  "status_string active = ''active''"
| "status_string inactive = ''inactive''"

record KeyMeta =
  keyId :: string
  suiteId :: SignatureSuite
  usage :: "string list"
  status :: key_status

record KeyRecord =
  meta :: KeyMeta
  publicKey :: Uint8Array

text \<open>
  \<^verbatim>\<open>
  export interface KeySDK {
    createKey: (agentId: string, options: { primarySignatureSuite: SignatureSuite }) => Promise<KeyRecord>;
    signWithKey: (keyId: string, message: Uint8Array) => Promise<Uint8Array>;
    verifySignature: (keyId: string, message: Uint8Array, signature: Uint8Array) => Promise<boolean>;
    listKeysForAgent: (agentId: string, activeOnly?: boolean) => Promise<KeyRecord[]>;
  }
  \<close>
  The SDK is an object that the page receives from the loaded script. Each method is a
  transformer of the world \<open>'w\<close> behind it (the key store, the clock, anything else): an
  awaited call takes the world as it is, returns the value the promise resolves to
  (\<open>Inr\<close>) or the error it rejects with (\<open>Inl\<close>), and the world after it. The handlers
  below are written for any such object.
\<close>

record 'w KeySDK =
  createKey :: "string \<Rightarrow> SignatureSuite \<Rightarrow> 'w \<Rightarrow> (js_error + KeyRecord) \<times> 'w"
  signWithKey :: "string \<Rightarrow> Uint8Array \<Rightarrow> 'w \<Rightarrow> (js_error + Uint8Array) \<times> 'w"
  verifySignature :: "string \<Rightarrow> Uint8Array \<Rightarrow> Uint8Array \<Rightarrow> 'w \<Rightarrow> (js_error + bool) \<times> 'w"
  listKeysForAgent :: "string \<Rightarrow> bool option \<Rightarrow> 'w \<Rightarrow> (js_error + KeyRecord list) \<times> 'w"

section \<open>Log entries and the formatting of numbers\<close>

text \<open>
  \<^verbatim>\<open>
  export type LogType = 'info' | 'success' | 'error';
  export interface LogEntry { timestamp: string; message: string; type: LogType; }

  const addLog = (message: string, type: LogEntry['type'] = 'info') => {
    const timestamp = new Date().toLocaleTimeString();
    setLogs((prev) => [...prev, { timestamp, message, type }]);
  };
  \<close>
  The time stamp is the wall clock in the locale's format and is left out of the entry.
  Messages are byte strings in UTF-8, so the symbols in them are spelt out in bytes; in
  the excerpts of the source a symbol is written as its name in parentheses.
\<close>

datatype LogType = info | success | error

datatype LogEntry = LogEntry string LogType

text \<open>Every section keeps its own \<^verbatim>\<open>logs\<close> state; the other state of a section extends it.\<close>

record Section =
  logs :: "LogEntry list"

definition addLog :: "string \<Rightarrow> LogType \<Rightarrow> 'a Section_scheme \<Rightarrow> 'a Section_scheme" where
  "addLog message ty st = st\<lparr>logs := logs st @ [LogEntry message ty]\<rparr>"

definition newline :: string where
  "newline = [CHR 0x0A]"

definition check_mark :: string where \<comment> \<open>U+2705\<close>
  "check_mark = [CHR 0xE2, CHR 0x9C, CHR 0x85]"

definition cross_mark :: string where \<comment> \<open>U+274C\<close>
  "cross_mark = [CHR 0xE2, CHR 0x9D, CHR 0x8C]"

definition memo_sign :: string where \<comment> \<open>U+1F4DD\<close>
  "memo_sign = [CHR 0xF0, CHR 0x9F, CHR 0x93, CHR 0x9D]"

definition chart_sign :: string where \<comment> \<open>U+1F4CA\<close>
  "chart_sign = [CHR 0xF0, CHR 0x9F, CHR 0x93, CHR 0x8A]"

definition lock_sign :: string where \<comment> \<open>U+1F510\<close>
  "lock_sign = [CHR 0xF0, CHR 0x9F, CHR 0x94, CHR 0x90]"

definition shield_sign :: string where \<comment> \<open>U+1F6E1 U+FE0F\<close>
  "shield_sign = [CHR 0xF0, CHR 0x9F, CHR 0x9B, CHR 0xA1, CHR 0xEF, CHR 0xB8, CHR 0x8F]"

definition warning_sign :: string where \<comment> \<open>U+26A0 U+FE0F\<close>
  "warning_sign = [CHR 0xE2, CHR 0x9A, CHR 0xA0, CHR 0xEF, CHR 0xB8, CHR 0x8F]"

definition bullet :: string where \<comment> \<open>U+2022\<close>
  "bullet = [CHR 0xE2, CHR 0x80, CHR 0xA2]"

definition double_quote :: string where
  "double_quote = [CHR 0x22]"

text \<open>A non-negative integer in a template literal: its decimal digits.\<close>

fun toString10 :: "nat \<Rightarrow> string" where
  "toString10 n =
     (if n < 10 then [hex_digits ! n]
      else toString10 (n div 10) @ [hex_digits ! (n mod 10)])"

declare toString10.simps [simp del]

text \<open>
  \<^verbatim>\<open>x.toFixed(f)\<close>: the integer \<open>n\<close> nearest to \<open>x * 10^f\<close> (the larger one at a tie),
  written with at least \<open>f + 1\<close> digits and a point before the last \<open>f\<close>. Durations and
  ratios are rationals here: floating-point rounding and the exponent form for
  \<open>10^21\<close> and above are not modelled.
\<close>

definition toFixed :: "nat \<Rightarrow> rat \<Rightarrow> string" where
  "toFixed f x =
     (let s = (if x < 0 then ''-'' else '''');
          n = nat \<lfloor>\<bar>x\<bar> * 10 ^ f + 1 / 2\<rfloor>;
          m = toString10 n
      in if f = 0 then s @ m
         else (let m' = (if length m \<le> f then replicate (f + 1 - length m) CHR ''0'' @ m else m);
                   k = length m'
               in s @ take (k - f) m' @ ''.'' @ drop (k - f) m'))"

text \<open>
  \<^verbatim>\<open>
  export const formatTime = (ms: number): string => { return `${ms.toFixed(2)}ms`; };
  \<close>
\<close>

definition formatTime :: "rat \<Rightarrow> string" where
  "formatTime ms = toFixed 2 ms @ ''ms''"

text \<open>\<^verbatim>\<open>(a / b).toFixed(2)\<close>, where dividing by zero gives \<^verbatim>\<open>NaN\<close> or an infinity.\<close>

definition ratio_toFixed2 :: "rat \<Rightarrow> rat \<Rightarrow> string" where
  "ratio_toFixed2 a b =
     (if b = 0 then (if a = 0 then ''NaN'' else if 0 < a then ''Infinity'' else ''-Infinity'')
      else toFixed 2 (a / b))"

text \<open>\<^verbatim>\<open>new TextEncoder().encode(s)\<close>: the UTF-8 bytes of the string.\<close>

definition TextEncoder_encode :: "string \<Rightarrow> Uint8Array" where
  "TextEncoder_encode s = map (\<lambda>c. of_nat (of_char c)) s"

text \<open>\<^verbatim>\<open>s.startsWith(p)\<close>.\<close>

definition startsWith :: "string \<Rightarrow> string \<Rightarrow> bool" where
  "startsWith s p = (take (length p) s = p)"

text \<open>
  \<^verbatim>\<open>!message.trim()\<close>: nothing is left once white space is trimmed. The white space
  of ASCII is modelled (tab, line feed, vertical tab, form feed, carriage return, space).
\<close>

definition is_white_space :: "char \<Rightarrow> bool" where
  "is_white_space c = (of_char c \<in> {9, 10, 11, 12, 13, 32 :: nat})"

definition trim :: "string \<Rightarrow> string" where
  "trim s = rev (dropWhile is_white_space (rev (dropWhile is_white_space s)))"

section \<open>Signing with both algorithms (SigningSection)\<close>

text \<open>
  \<^verbatim>\<open>performance.now()\<close> reads a clock of the world; it is the parameter
  \<open>performance_now\<close> of the handlers that time their calls. The parent's callbacks
  (\<^verbatim>\<open>onStatsUpdate\<close>, \<^verbatim>\<open>onKeysRotated\<close>, \<^verbatim>\<open>onKeyCreated\<close>) are transformers of the
  parent's state \<open>'p\<close>. A handler takes and returns the section's state, the parent's
  state and the world. Its \<^verbatim>\<open>try\<close> block is a definition of its own that also returns
  the error thrown, if any; the handler adds \<^verbatim>\<open>catch\<close> and \<^verbatim>\<open>finally\<close>.
\<close>

record SigningBase = Section +
  isSigning :: bool

record Signing = SigningBase +
  isSigningBoth :: bool

text \<open>
  \<^verbatim>\<open>
  const message = new TextEncoder().encode('Hybrid signature test message');
  addLog('Creating signatures with both algorithms...', 'info');
  addLog('\n(memo) ECDSA Signing...', 'info');
  const ecdsaStart = performance.now();
  const ecdsaSig = await sdk.signWithKey(ecdsaKeyId, message);
  const ecdsaTime = performance.now() - ecdsaStart;
  addLog(`(check) ECDSA: ${formatTime(ecdsaTime)}, ${ecdsaSig.length} bytes`, 'success');
  addLog('\n(memo) ML-DSA Signing...', 'info');
  const mldsaStart = performance.now();
  const mldsaSig = await sdk.signWithKey(mldsaKeyId, message);
  const mldsaTime = performance.now() - mldsaStart;
  addLog(`(check) ML-DSA: ${formatTime(mldsaTime)}, ${mldsaSig.length} bytes`, 'success');
  addLog('\n(chart) Comparison:', 'info');
  addLog(`   ECDSA: ${formatTime(ecdsaTime)}, ${ecdsaSig.length} bytes`, 'info');
  addLog(`   ML-DSA: ${formatTime(mldsaTime)}, ${mldsaSig.length} bytes`, 'info');
  addLog(`   Size ratio: ${(mldsaSig.length / ecdsaSig.length).toFixed(2)}x`, 'info');
  onStatsUpdate();
  \<close>
\<close>

definition handleSignWithBoth_try ::
  "('w \<Rightarrow> rat) \<Rightarrow> 'w KeySDK \<Rightarrow> string \<Rightarrow> string \<Rightarrow> ('p \<Rightarrow> 'p) \<Rightarrow>
   Signing \<times> 'p \<times> 'w \<Rightarrow> js_error option \<times> Signing \<times> 'p \<times> 'w" where
  "handleSignWithBoth_try performance_now k ecdsaId mldsaId onStatsUpdate = (\<lambda>(st, p, w).
     let message = TextEncoder_encode ''Hybrid signature test message'';
         st1 = addLog ''Creating signatures with both algorithms...'' info st;
         st2 = addLog (newline @ memo_sign @ '' ECDSA Signing...'') info st1;
         ecdsaStart = performance_now w
     in case signWithKey k ecdsaId message w of
          (Inl e, w1) \<Rightarrow> (Some e, st2, p, w1)
        | (Inr ecdsaSig, w1) \<Rightarrow>
            (let ecdsaTime = performance_now w1 - ecdsaStart;
                 st3 = addLog (check_mark @ '' ECDSA: '' @ formatTime ecdsaTime @ '', ''
                                @ toString10 (length ecdsaSig) @ '' bytes'') success st2;
                 st4 = addLog (newline @ memo_sign @ '' ML-DSA Signing...'') info st3;
                 mldsaStart = performance_now w1
             in case signWithKey k mldsaId message w1 of
                  (Inl e, w2) \<Rightarrow> (Some e, st4, p, w2)
                | (Inr mldsaSig, w2) \<Rightarrow>
                    (let mldsaTime = performance_now w2 - mldsaStart;
                         st5 = addLog (check_mark @ '' ML-DSA: '' @ formatTime mldsaTime @ '', ''
                                        @ toString10 (length mldsaSig) @ '' bytes'') success st4;
                         st6 = addLog (newline @ chart_sign @ '' Comparison:'') info st5;
                         st7 = addLog (''   ECDSA: '' @ formatTime ecdsaTime @ '', ''
                                        @ toString10 (length ecdsaSig) @ '' bytes'') info st6;
                         st8 = addLog (''   ML-DSA: '' @ formatTime mldsaTime @ '', ''
                                        @ toString10 (length mldsaSig) @ '' bytes'') info st7;
                         st9 = addLog (''   Size ratio: ''
                                        @ ratio_toFixed2 (of_nat (length mldsaSig)) (of_nat (length ecdsaSig))
                                        @ ''x'') info st8
                     in (None, st9, onStatsUpdate p, w2))))"

text \<open>
  \<^verbatim>\<open>
  const handleSignWithBoth = async () => {
    if (!sdk || !ecdsaKeyId || !mldsaKeyId) return;
    setIsSigningBoth(true);
    setLogs([]);
    try { ... }
    catch (error) { addLog(`(cross) Error: ${(error as Error).message}`, 'error'); }
    finally { setIsSigningBoth(false); }
  };
  \<close>
\<close>

definition handleSignWithBoth ::
  "('w \<Rightarrow> rat) \<Rightarrow> 'w KeySDK option \<Rightarrow> KeyIds \<Rightarrow> ('p \<Rightarrow> 'p) \<Rightarrow>
   Signing \<times> 'p \<times> 'w \<Rightarrow> Signing \<times> 'p \<times> 'w" where
  "handleSignWithBoth performance_now sdkp ids onStatsUpdate = (\<lambda>(st, p, w).
     case (sdkp, ecdsaKeyId ids, mldsaKeyId ids) of
       (Some k, Some ecdsaId, Some mldsaId) \<Rightarrow>
         if ecdsaId = [] \<or> mldsaId = [] then (st, p, w)
         else (let st0 = st\<lparr>logs := [], isSigningBoth := True\<rparr>
               in case handleSignWithBoth_try performance_now k ecdsaId mldsaId onStatsUpdate (st0, p, w) of
                    (None, st1, p1, w1) \<Rightarrow> (st1\<lparr>isSigningBoth := False\<rparr>, p1, w1)
                  | (Some e, st1, p1, w1) \<Rightarrow>
                      ((addLog (cross_mark @ '' Error: '' @ error_message e) error st1)
                         \<lparr>isSigningBoth := False\<rparr>, p1, w1))
     | _ \<Rightarrow> (st, p, w))"

section \<open>Signing a custom message (CustomMessageSection)\<close>

datatype algorithm = alg_ecdsa | alg_mldsa | alg_both

record SignatureEntry =
  signature :: Uint8Array
  time :: rat

record Signatures =
  ecdsa :: "SignatureEntry option"
  mldsa :: "SignatureEntry option"

record CustomMessage = SigningBase +
  message :: string
  selectedAlgorithm :: algorithm
  signatures :: Signatures

text \<open>
  The handler has the same statement twice, once for each algorithm; the two differ in
  the algorithm they test for, in the key, in the heading they log and in the name of the
  algorithm. It is written once here; this is the first of the two:
  \<^verbatim>\<open>
  if ((selectedAlgorithm === 'ecdsa' || selectedAlgorithm === 'both') && ecdsaKeyId) {
    addLog('(lock) Signing with ECDSA...', 'info');
    const startSign = performance.now();
    const signature = await sdk.signWithKey(ecdsaKeyId, messageBytes);
    const signTime = performance.now() - startSign;
    newSignatures.ecdsa = { signature, time: signTime };
    addLog(`(check) ECDSA signature created in ${formatTime(signTime)}`, 'success');
    addLog(`   Size: ${signature.length} bytes`, 'info');
    addLog(`   Hex: ${arrayToHex(signature, 32)}...\n`, 'info');
    const startVerify = performance.now();
    const isValid = await sdk.verifySignature(ecdsaKeyId, messageBytes, signature);
    const verifyTime = performance.now() - startVerify;
    addLog(`${isValid ? '(check)' : '(cross)'} Verification: ${isValid ? 'PASSED' : 'FAILED'} (${formatTime(verifyTime)})\n`,
           isValid ? 'success' : 'error');
  }
  \<close>
  \<^verbatim>\<open>newSignatures\<close> is a local object that nothing reads before the statement is over,
  so the statement returns the entry it stored there, if any.
\<close>

definition sign_block ::
  "('w \<Rightarrow> rat) \<Rightarrow> 'w KeySDK \<Rightarrow> bool \<Rightarrow> string option \<Rightarrow> string \<Rightarrow> string \<Rightarrow> Uint8Array \<Rightarrow>
   CustomMessage \<times> 'w \<Rightarrow> (js_error + SignatureEntry option) \<times> CustomMessage \<times> 'w" where
  "sign_block performance_now k selected keyId' heading name messageBytes = (\<lambda>(st, w).
     case keyId' of
       None \<Rightarrow> (Inr None, st, w)
     | Some kid \<Rightarrow>
         if selected \<and> kid \<noteq> []
         then (let st1 = addLog heading info st;
                   startSign = performance_now w
               in case signWithKey k kid messageBytes w of
                    (Inl e, w1) \<Rightarrow> (Inl e, st1, w1)
                  | (Inr sig, w1) \<Rightarrow>
                      (let signTime = performance_now w1 - startSign;
                           st2 = addLog (check_mark @ '' '' @ name @ '' signature created in ''
                                          @ formatTime signTime) success st1;
                           st3 = addLog (''   Size: '' @ toString10 (length sig) @ '' bytes'') info st2;
                           st4 = addLog (''   Hex: '' @ arrayToHex sig 32 @ ''...'' @ newline) info st3;
                           startVerify = performance_now w1
                       in case verifySignature k kid messageBytes sig w1 of
                            (Inl e, w2) \<Rightarrow> (Inl e, st4, w2)
                          | (Inr isValid, w2) \<Rightarrow>
                              (let verifyTime = performance_now w2 - startVerify;
                                   st5 = addLog ((if isValid then check_mark else cross_mark)
                                                  @ '' Verification: ''
                                                  @ (if isValid then ''PASSED'' else ''FAILED'')
                                                  @ '' ('' @ formatTime verifyTime @ '')'' @ newline)
                                                (if isValid then success else error) st4
                               in (Inr (Some \<lparr>signature = sig, time = signTime\<rparr>), st5, w2))))
         else (Inr None, st, w))"

text \<open>
  \<^verbatim>\<open>
  const messageBytes = new TextEncoder().encode(message);
  addLog(`(memo) Message: "${message}"`, 'info');
  addLog(`   Size: ${messageBytes.length} bytes\n`, 'info');
  const newSignatures: typeof signatures = {};
  if ((selectedAlgorithm === 'ecdsa' || selectedAlgorithm === 'both') && ecdsaKeyId) { ... }
  if ((selectedAlgorithm === 'mldsa' || selectedAlgorithm === 'both') && mldsaKeyId) { ... }
  if (newSignatures.ecdsa && newSignatures.mldsa) {
    addLog('(chart) Algorithm Comparison:', 'info');
    addLog(`   ECDSA: ${formatTime(newSignatures.ecdsa.time)}, ${newSignatures.ecdsa.signature.length} bytes`, 'info');
    addLog(`   ML-DSA: ${formatTime(newSignatures.mldsa.time)}, ${newSignatures.mldsa.signature.length} bytes`, 'info');
    const speedRatio = (newSignatures.mldsa.time / newSignatures.ecdsa.time).toFixed(2);
    const sizeRatio = (newSignatures.mldsa.signature.length / newSignatures.ecdsa.signature.length).toFixed(2);
    addLog(`   ML-DSA is ${speedRatio}x slower but quantum-resistant`, 'info');
    addLog(`   ML-DSA signature is ${sizeRatio}x larger`, 'info');
  }
  setSignatures(newSignatures);
  onStatsUpdate();
  \<close>
\<close>

definition log_comparison :: "Signatures \<Rightarrow> CustomMessage \<Rightarrow> CustomMessage" where
  "log_comparison newSignatures st =
     (case (ecdsa newSignatures, mldsa newSignatures) of
        (Some es, Some ms) \<Rightarrow>
          addLog (''   ML-DSA signature is ''
                   @ ratio_toFixed2 (of_nat (length (signature ms))) (of_nat (length (signature es)))
                   @ ''x larger'') info
          (addLog (''   ML-DSA is '' @ ratio_toFixed2 (time ms) (time es)
                    @ ''x slower but quantum-resistant'') info
          (addLog (''   ML-DSA: '' @ formatTime (time ms) @ '', ''
                    @ toString10 (length (signature ms)) @ '' bytes'') info
          (addLog (''   ECDSA: '' @ formatTime (time es) @ '', ''
                    @ toString10 (length (signature es)) @ '' bytes'') info
          (addLog (chart_sign @ '' Algorithm Comparison:'') info st))))
      | _ \<Rightarrow> st)"

definition handleSignMessage_try ::
  "('w \<Rightarrow> rat) \<Rightarrow> 'w KeySDK \<Rightarrow> KeyIds \<Rightarrow> ('p \<Rightarrow> 'p) \<Rightarrow>
   CustomMessage \<times> 'p \<times> 'w \<Rightarrow> js_error option \<times> CustomMessage \<times> 'p \<times> 'w" where
  "handleSignMessage_try performance_now k ids onStatsUpdate = (\<lambda>(st, p, w).
     let messageBytes = TextEncoder_encode (message st);
         st1 = addLog (memo_sign @ '' Message: '' @ double_quote @ message st @ double_quote) info st;
         st2 = addLog (''   Size: '' @ toString10 (length messageBytes) @ '' bytes'' @ newline) info st1
     in case sign_block performance_now k
               (selectedAlgorithm st2 = alg_ecdsa \<or> selectedAlgorithm st2 = alg_both) (ecdsaKeyId ids)
               (lock_sign @ '' Signing with ECDSA...'') ''ECDSA'' messageBytes (st2, w) of
          (Inl e, st3, w1) \<Rightarrow> (Some e, st3, p, w1)
        | (Inr newEcdsa, st3, w1) \<Rightarrow>
            (case sign_block performance_now k
                    (selectedAlgorithm st3 = alg_mldsa \<or> selectedAlgorithm st3 = alg_both) (mldsaKeyId ids)
                    (shield_sign @ '' Signing with ML-DSA (Post-Quantum)...'') ''ML-DSA'' messageBytes
                    (st3, w1) of
               (Inl e, st4, w2) \<Rightarrow> (Some e, st4, p, w2)
             | (Inr newMldsa, st4, w2) \<Rightarrow>
                 (let newSignatures = \<lparr>ecdsa = newEcdsa, mldsa = newMldsa\<rparr>;
                      st5 = log_comparison newSignatures st4
                  in (None, st5\<lparr>signatures := newSignatures\<rparr>, onStatsUpdate p, w2))))"

text \<open>
  \<^verbatim>\<open>
  const handleSignMessage = async () => {
    if (!sdk || !message.trim()) {
      addLog('(cross) Please enter a message to sign', 'error');
      return;
    }
    setIsSigning(true);
    setLogs([]);
    setSignatures({});
    try { ... }
    catch (error) { addLog(`(cross) Error: ${(error as Error).message}`, 'error'); }
    finally { setIsSigning(false); }
  };
  \<close>
\<close>

definition handleSignMessage ::
  "('w \<Rightarrow> rat) \<Rightarrow> 'w KeySDK option \<Rightarrow> KeyIds \<Rightarrow> ('p \<Rightarrow> 'p) \<Rightarrow>
   CustomMessage \<times> 'p \<times> 'w \<Rightarrow> CustomMessage \<times> 'p \<times> 'w" where
  "handleSignMessage performance_now sdkp ids onStatsUpdate = (\<lambda>(st, p, w).
     case sdkp of
       None \<Rightarrow> (addLog (cross_mark @ '' Please enter a message to sign'') error st, p, w)
     | Some k \<Rightarrow>
         if trim (message st) = []
         then (addLog (cross_mark @ '' Please enter a message to sign'') error st, p, w)
         else (let st0 = st\<lparr>logs := [], isSigning := True, signatures := \<lparr>ecdsa = None, mldsa = None\<rparr>\<rparr>
               in case handleSignMessage_try performance_now k ids onStatsUpdate (st0, p, w) of
                    (None, st1, p1, w1) \<Rightarrow> (st1\<lparr>isSigning := False\<rparr>, p1, w1)
                  | (Some e, st1, p1, w1) \<Rightarrow>
                      ((addLog (cross_mark @ '' Error: '' @ error_message e) error st1)
                         \<lparr>isSigning := False\<rparr>, p1, w1)))"

section \<open>Key management (KeyManagementSection)\<close>

record KeyManagement = Section +
  isListing :: bool
  isRotating :: bool
  isGettingProfile :: bool

text \<open>
  \<^verbatim>\<open>
  newKeys.forEach((key, index) => {
    addLog(`\n${index + 1}. ${key.meta.keyId}`, 'info');
    addLog(`   Suite: ${key.meta.suiteId}`, 'info');
  });
  \<close>
\<close>

fun log_new_keys :: "nat \<Rightarrow> KeyRecord list \<Rightarrow> 'a Section_scheme \<Rightarrow> 'a Section_scheme" where
  "log_new_keys index [] st = st"
| "log_new_keys index (key # rest) st =
     log_new_keys (index + 1) rest
       (addLog (''   Suite: '' @ suite_string (suiteId (meta key))) info
         (addLog (newline @ toString10 (index + 1) @ ''. '' @ keyId (meta key)) info st))"

text \<open>
  \<^verbatim>\<open>
  addLog('Rotating keys for BrowserAgent...', 'info');
  addLog('Creating new keys...', 'info');
  const newKeys = [];
  let newEcdsaKeyId = null;
  let newMldsaKeyId = null;
  if (ecdsaKeyId) {
    const newEcdsa = await sdk.createKey('BrowserAgent', { primarySignatureSuite: 'bsv-ecdsa-secp256k1' });
    newKeys.push(newEcdsa);
    newEcdsaKeyId = newEcdsa.meta.keyId;
  }
  if (mldsaKeyId) {
    const newMldsa = await sdk.createKey('BrowserAgent', { primarySignatureSuite: 'ml-dsa-65' });
    newKeys.push(newMldsa);
    newMldsaKeyId = newMldsa.meta.keyId;
  }
  addLog(`\n(check) Created ${newKeys.length} new key(s):`, 'success');
  newKeys.forEach(...);
  addLog('\n(check) Keys rotated successfully', 'success');
  onKeysRotated(newEcdsaKeyId, newMldsaKeyId);
  onStatsUpdate();
  \<close>
\<close>

definition handleRotateKeys_try ::
  "'w KeySDK \<Rightarrow> KeyIds \<Rightarrow> (string option \<Rightarrow> string option \<Rightarrow> 'p \<Rightarrow> 'p) \<Rightarrow> ('p \<Rightarrow> 'p) \<Rightarrow>
   KeyManagement \<times> 'p \<times> 'w \<Rightarrow> js_error option \<times> KeyManagement \<times> 'p \<times> 'w" where
  "handleRotateKeys_try k ids onKeysRotated onStatsUpdate = (\<lambda>(st, p, w).
     let st1 = addLog ''Rotating keys for BrowserAgent...'' info st;
         st2 = addLog ''Creating new keys...'' info st1
     in case (if truthy (ecdsaKeyId ids)
              then (case createKey k ''BrowserAgent'' bsv_ecdsa_secp256k1 w of
                      (Inl e, w1) \<Rightarrow> (Inl e, w1)
                    | (Inr newEcdsa, w1) \<Rightarrow> (Inr ([newEcdsa], Some (keyId (meta newEcdsa))), w1))
              else (Inr ([], None), w)) of
          (Inl e, w1) \<Rightarrow> (Some e, st2, p, w1)
        | (Inr (newKeys1, newEcdsaKeyId), w1) \<Rightarrow>
            (case (if truthy (mldsaKeyId ids)
                   then (case createKey k ''BrowserAgent'' ml_dsa_65 w1 of
                           (Inl e, w2) \<Rightarrow> (Inl e, w2)
                         | (Inr newMldsa, w2) \<Rightarrow>
                             (Inr (newKeys1 @ [newMldsa], Some (keyId (meta newMldsa))), w2))
                   else (Inr (newKeys1, None), w1)) of
               (Inl e, w2) \<Rightarrow> (Some e, st2, p, w2)
             | (Inr (newKeys, newMldsaKeyId), w2) \<Rightarrow>
                 (let st3 = addLog (newline @ check_mark @ '' Created '' @ toString10 (length newKeys)
                                     @ '' new key(s):'') success st2;
                      st4 = log_new_keys 0 newKeys st3;
                      st5 = addLog (newline @ check_mark @ '' Keys rotated successfully'') success st4
                  in (None, st5, onStatsUpdate (onKeysRotated newEcdsaKeyId newMldsaKeyId p), w2))))"

text \<open>
  \<^verbatim>\<open>
  const handleRotateKeys = async () => {
    if (!sdk) return;
    setIsRotating(true);
    setLogs([]);
    try { ... }
    catch (error) { addLog(`(cross) Error: ${(error as Error).message}`, 'error'); }
    finally { setIsRotating(false); }
  };
  \<close>
\<close>

definition handleRotateKeys ::
  "'w KeySDK option \<Rightarrow> KeyIds \<Rightarrow> (string option \<Rightarrow> string option \<Rightarrow> 'p \<Rightarrow> 'p) \<Rightarrow> ('p \<Rightarrow> 'p) \<Rightarrow>
   KeyManagement \<times> 'p \<times> 'w \<Rightarrow> KeyManagement \<times> 'p \<times> 'w" where
  "handleRotateKeys sdkp ids onKeysRotated onStatsUpdate = (\<lambda>(st, p, w).
     case sdkp of
       None \<Rightarrow> (st, p, w)
     | Some k \<Rightarrow>
         (let st0 = st\<lparr>logs := [], isRotating := True\<rparr>
          in case handleRotateKeys_try k ids onKeysRotated onStatsUpdate (st0, p, w) of
               (None, st1, p1, w1) \<Rightarrow> (st1\<lparr>isRotating := False\<rparr>, p1, w1)
             | (Some e, st1, p1, w1) \<Rightarrow>
                 ((addLog (cross_mark @ '' Error: '' @ error_message e) error st1)
                    \<lparr>isRotating := False\<rparr>, p1, w1)))"

text \<open>
  \<^verbatim>\<open>
  addLog('Getting key profile...', 'info');
  const keys = await sdk.listKeysForAgent('BrowserAgent', true);
  const activeKeys = keys.filter((k) => k.meta.status === 'active');
  addLog('\n(check) Active Keys Profile:', 'success');
  addLog(`   Total active keys: ${activeKeys.length}`, 'info');
  const hasEcdsa = activeKeys.some((k) => k.meta.suiteId === 'bsv-ecdsa-secp256k1');
  const hasMldsa = activeKeys.some((k) => k.meta.suiteId.startsWith('ml-dsa'));
  if (hasEcdsa && hasMldsa) {
    addLog('\n(shield) Hybrid mode: Maximum security!', 'success');
    addLog('   (bullet) Classical ECDSA for current compatibility', 'info');
    addLog('   (bullet) Post-quantum ML-DSA for future-proofing', 'info');
  } else if (hasMldsa) {
    addLog('\n(shield) Post-quantum only: Future-ready!', 'success');
  } else if (hasEcdsa) {
    addLog('\n(memo) Classical only: Standard ECDSA', 'info');
  } else {
    addLog('\n(warning) No active keys', 'info');
  }
  \<close>
\<close>

definition handleGetProfile_try ::
  "'w KeySDK \<Rightarrow> KeyManagement \<times> 'p \<times> 'w \<Rightarrow> js_error option \<times> KeyManagement \<times> 'p \<times> 'w" where
  "handleGetProfile_try k = (\<lambda>(st, p, w).
     let st1 = addLog ''Getting key profile...'' info st
     in case listKeysForAgent k ''BrowserAgent'' (Some True) w of
          (Inl e, w1) \<Rightarrow> (Some e, st1, p, w1)
        | (Inr keys, w1) \<Rightarrow>
            (let activeKeys = filter (\<lambda>k. status (meta k) = active) keys;
                 st2 = addLog (newline @ check_mark @ '' Active Keys Profile:'') success st1;
                 st3 = addLog (''   Total active keys: '' @ toString10 (length activeKeys)) info st2;
                 hasEcdsa = list_ex (\<lambda>k. suiteId (meta k) = bsv_ecdsa_secp256k1) activeKeys;
                 hasMldsa = list_ex (\<lambda>k. startsWith (suite_string (suiteId (meta k))) ''ml-dsa'') activeKeys;
                 st4 = (if hasEcdsa \<and> hasMldsa
                        then addLog (''   '' @ bullet @ '' Post-quantum ML-DSA for future-proofing'') info
                             (addLog (''   '' @ bullet @ '' Classical ECDSA for current compatibility'') info
                             (addLog (newline @ shield_sign @ '' Hybrid mode: Maximum security!'') success st3))
                        else if hasMldsa
                        then addLog (newline @ shield_sign @ '' Post-quantum only: Future-ready!'') success st3
                        else if hasEcdsa
                        then addLog (newline @ memo_sign @ '' Classical only: Standard ECDSA'') info st3
                        else addLog (newline @ warning_sign @ '' No active keys'') info st3)
             in (None, st4, p, w1)))"

text \<open>
  \<^verbatim>\<open>
  const handleGetProfile = async () => {
    if (!sdk) return;
    setIsGettingProfile(true);
    setLogs([]);
    try { ... }
    catch (error) { addLog(`(cross) Error: ${(error as Error).message}`, 'error'); }
    finally { setIsGettingProfile(false); }
  };
  \<close>
\<close>

definition handleGetProfile ::
  "'w KeySDK option \<Rightarrow> KeyManagement \<times> 'p \<times> 'w \<Rightarrow> KeyManagement \<times> 'p \<times> 'w" where
  "handleGetProfile sdkp = (\<lambda>(st, p, w).
     case sdkp of
       None \<Rightarrow> (st, p, w)
     | Some k \<Rightarrow>
         (let st0 = st\<lparr>logs := [], isGettingProfile := True\<rparr>
          in case handleGetProfile_try k (st0, p, w) of
               (None, st1, p1, w1) \<Rightarrow> (st1\<lparr>isGettingProfile := False\<rparr>, p1, w1)
             | (Some e, st1, p1, w1) \<Rightarrow>
                 ((addLog (cross_mark @ '' Error: '' @ error_message e) error st1)
                    \<lparr>isGettingProfile := False\<rparr>, p1, w1)))"

section \<open>Creating an ML-DSA key (KeyCreationSection)\<close>

record KeyCreation = Section +
  mldsaVariant :: SignatureSuite
  isCreatingEcdsa :: bool
  isCreatingMldsa :: bool

text \<open>
  \<^verbatim>\<open>
  const variantNames = {
    'ml-dsa-44': 'ML-DSA-44 (Level 2, fastest)',
    'ml-dsa-65': 'ML-DSA-65 (Level 3, balanced)',
    'ml-dsa-87': 'ML-DSA-87 (Level 5, maximum security)',
  };
  \<close>
  The table has no entry for the classical suite; the template literal prints
  \<^verbatim>\<open>undefined\<close> for it.
\<close>

fun variantNames :: "SignatureSuite \<Rightarrow> string" where
  "variantNames ml_dsa_44 = ''ML-DSA-44 (Level 2, fastest)''"
| "variantNames ml_dsa_65 = ''ML-DSA-65 (Level 3, balanced)''"
| "variantNames ml_dsa_87 = ''ML-DSA-87 (Level 5, maximum security)''"
| "variantNames bsv_ecdsa_secp256k1 = ''undefined''"

definition hourglass_sign :: string where \<comment> \<open>U+23F3\<close>
  "hourglass_sign = [CHR 0xE2, CHR 0x8F, CHR 0xB3]"

text \<open>
  \<^verbatim>\<open>
  const handleCreateMLDSA = async () => {
    if (!sdk) return;
    setIsCreatingMldsa(true);
    try {
      addLog(`Creating ${variantNames[mldsaVariant]} key...`, 'info');
      addLog('(hourglass) Initializing WASM module...', 'info');
      const keyRecord = await sdk.createKey('BrowserAgent', { primarySignatureSuite: mldsaVariant });
      addLog('(check) ML-DSA key created!', 'success');
      addLog(`   Key ID: ${keyRecord.meta.keyId}`, 'info');
      addLog(`   Suite: ${keyRecord.meta.suiteId}`, 'info');
      addLog(`   Public Key Size: ${keyRecord.publicKey.length} bytes`, 'info');
      addLog('   This is QUANTUM-RESISTANT! (shield)', 'success');
      onKeyCreated(keyRecord.meta.keyId, 'mldsa');
      onStatsUpdate();
    } catch (error) { addLog(`(cross) Error: ${(error as Error).message}`, 'error'); }
    finally { setIsCreatingMldsa(false); }
  };
  \<close>
\<close>

definition handleCreateMLDSA ::
  "'w KeySDK option \<Rightarrow> (string \<Rightarrow> key_type \<Rightarrow> 'p \<Rightarrow> 'p) \<Rightarrow> ('p \<Rightarrow> 'p) \<Rightarrow>
   KeyCreation \<times> 'p \<times> 'w \<Rightarrow> KeyCreation \<times> 'p \<times> 'w" where
  "handleCreateMLDSA sdkp onKeyCreated onStatsUpdate = (\<lambda>(st, p, w).
     case sdkp of
       None \<Rightarrow> (st, p, w)
     | Some k \<Rightarrow>
         (let st0 = st\<lparr>isCreatingMldsa := True\<rparr>;
              st1 = addLog (''Creating '' @ variantNames (mldsaVariant st0) @ '' key...'') info st0;
              st2 = addLog (hourglass_sign @ '' Initializing WASM module...'') info st1
          in case createKey k ''BrowserAgent'' (mldsaVariant st2) w of
               (Inl e, w1) \<Rightarrow>
                 ((addLog (cross_mark @ '' Error: '' @ error_message e) error st2)
                    \<lparr>isCreatingMldsa := False\<rparr>, p, w1)
             | (Inr keyRecord, w1) \<Rightarrow>
                 (let st3 = addLog (check_mark @ '' ML-DSA key created!'') success st2;
                      st4 = addLog (''   Key ID: '' @ keyId (meta keyRecord)) info st3;
                      st5 = addLog (''   Suite: '' @ suite_string (suiteId (meta keyRecord))) info st4;
                      st6 = addLog (''   Public Key Size: '' @ toString10 (length (publicKey keyRecord))
                                     @ '' bytes'') info st5;
                      st7 = addLog (''   This is QUANTUM-RESISTANT! '' @ shield_sign) success st6
                  in (st7\<lparr>isCreatingMldsa := False\<rparr>,
                      onStatsUpdate (onKeyCreated (keyId (meta keyRecord)) Mldsa p), w1))))"

section \<open>Recording the calls of a handler\<close>

text \<open>
  To say which SDK methods a handler calls, in which order and with which outcome, any
  SDK is wrapped into one that behaves the same and also appends each call it receives
  to a list kept beside the world, together with whether the call returned (\<open>True\<close>) or
  threw (\<open>False\<close>).
\<close>

datatype sdk_call =
    is_CreateKey: CreateKey string SignatureSuite
  | is_SignWithKey: SignWithKey string Uint8Array
  | is_VerifySignature: VerifySignature string Uint8Array Uint8Array
  | is_ListKeysForAgent: ListKeysForAgent string "bool option"

definition returned :: "js_error + 'a \<Rightarrow> bool" where
  "returned r = (case r of Inl e \<Rightarrow> False | Inr v \<Rightarrow> True)"

definition recording :: "'w KeySDK \<Rightarrow> ('w \<times> (sdk_call \<times> bool) list) KeySDK" where
  "recording k =
     \<lparr>createKey = (\<lambda>agent suite (w, calls).
        case createKey k agent suite w of
          (r, w') \<Rightarrow> (r, w', calls @ [(CreateKey agent suite, returned r)])),
      signWithKey = (\<lambda>kid msg (w, calls).
        case signWithKey k kid msg w of
          (r, w') \<Rightarrow> (r, w', calls @ [(SignWithKey kid msg, returned r)])),
      verifySignature = (\<lambda>kid msg sig (w, calls).
        case verifySignature k kid msg sig w of
          (r, w') \<Rightarrow> (r, w', calls @ [(VerifySignature kid msg sig, returned r)])),
      listKeysForAgent = (\<lambda>agent activeOnly (w, calls).
        case listKeysForAgent k agent activeOnly w of
          (r, w') \<Rightarrow> (r, w', calls @ [(ListKeysForAgent agent activeOnly, returned r)]))\<rparr>"

definition failed_sign :: "sdk_call \<times> bool \<Rightarrow> bool" where
  "failed_sign c = (is_SignWithKey (fst c) \<and> \<not> snd c)"

text \<open>The calls that one signing statement of \<open>handleSignMessage\<close> makes to the SDK.\<close>

definition sign_block_calls ::
  "'w KeySDK \<Rightarrow> bool \<Rightarrow> string option \<Rightarrow> Uint8Array \<Rightarrow> 'w \<Rightarrow> (sdk_call \<times> bool) list" where
  "sign_block_calls k selected keyId' m w =
     (case keyId' of
        None \<Rightarrow> []
      | Some kid \<Rightarrow>
          if selected \<and> kid \<noteq> []
          then (case signWithKey k kid m w of
                  (Inl e, w1) \<Rightarrow> [(SignWithKey kid m, False)]
                | (Inr sig, w1) \<Rightarrow>
                    [(SignWithKey kid m, True),
                     (VerifySignature kid m sig, returned (fst (verifySignature k kid m sig w1)))])
          else [])"

text \<open>Dropping the list of calls from the result of a handler that ran on a recording SDK.\<close>

definition forget_calls :: "'s \<times> 'p \<times> 'w \<times> 'c \<Rightarrow> 's \<times> 'p \<times> 'w" where
  "forget_calls r = (fst r, fst (snd r), fst (snd (snd r)))"

section \<open>The key store behind the SDK\<close>

text \<open>
  Modelled from the spec: the key store behind the SDK. The implementation of the SDK is
  the package that the page loads from the CDN; it is not among the sources. What
  rotation and the profile need of it, the records of the store and its operations,
  follows the specification (sections 3 and 4.1 to 4.3). The cryptographic primitives
  and the suite registry are the external provider of section 6: per suite its
  descriptor (\<open>None\<close> for a suite that is not registered), the generation of a key pair
  (\<open>None\<close> when it fails), signing and verification.
\<close>

record SuiteDescriptor =
  publicKeyLength :: nat
  signatureLength :: nat

record Provider =
  describe :: "SignatureSuite \<Rightarrow> SuiteDescriptor option"
  generateKeyPair :: "SignatureSuite \<Rightarrow> nat \<Rightarrow> (Uint8Array \<times> Uint8Array) option"
  sign :: "SignatureSuite \<Rightarrow> Uint8Array \<Rightarrow> Uint8Array \<Rightarrow> Uint8Array"
  verify :: "SignatureSuite \<Rightarrow> Uint8Array \<Rightarrow> Uint8Array \<Rightarrow> Uint8Array \<Rightarrow> bool"
  freshKeyId :: "nat \<Rightarrow> string"

record StoredKey =
  agentId :: string
  keyRecord :: KeyRecord
  privateHandle :: "Uint8Array option"

record KeyStore =
  keyRecords :: "StoredKey list"
  issued :: nat

text \<open>
  Modelled from the spec: \<^verbatim>\<open>createKey\<close> of the Key Store, whose code is not among the
  sources. It "requests private/public key material generation from the suite's
  underlying primitive, assigns a fresh unique key identifier, sets status active,
  usage = {sign, verify}, stores and returns the record. Fails with UnsupportedSuite if
  the Suite Registry rejects suiteId; fails with KeyGenerationFailed if primitive
  generation errors". The store keeps its records in creation order.
\<close>

definition store_createKey :: "Provider \<Rightarrow> string \<Rightarrow> SignatureSuite \<Rightarrow> KeyStore \<Rightarrow> (js_error + KeyRecord) \<times> KeyStore" where
  "store_createKey prov agent suite s =
     (case describe prov suite of
        None \<Rightarrow> (Inl (Error ''UnsupportedSuite''), s)
      | Some d \<Rightarrow>
          (case generateKeyPair prov suite (issued s) of
             None \<Rightarrow> (Inl (Error ''KeyGenerationFailed''), s)
           | Some (pk, sk) \<Rightarrow>
               (let r = \<lparr>meta = \<lparr>keyId = freshKeyId prov (issued s), suiteId = suite,
                                 usage = [''sign'', ''verify''], status = active\<rparr>,
                         publicKey = pk\<rparr>
                in (Inr r, s\<lparr>keyRecords := keyRecords s @ [\<lparr>agentId = agent, keyRecord = r,
                                                              privateHandle = Some sk\<rparr>],
                             issued := issued s + 1\<rparr>))))"

text \<open>
  Modelled from the spec: \<^verbatim>\<open>listKeysForAgent\<close> of the Key Store, whose code is not among
  the sources: the agent's records "in creation order; if activeOnly, filters to status
  active". It reads the store and leaves it as it is.
\<close>

definition store_listKeysForAgent :: "string \<Rightarrow> bool option \<Rightarrow> KeyStore \<Rightarrow> (js_error + KeyRecord list) \<times> KeyStore" where
  "store_listKeysForAgent agent activeOnly s =
     (Inr (map keyRecord
        (filter (\<lambda>k. agentId k = agent \<and>
                      (if activeOnly = Some True then status (meta (keyRecord k)) = active else True))
                (keyRecords s))), s)"

text \<open>
  Modelled from the spec: \<^verbatim>\<open>sign\<close> of the Signing Engine, whose code is not among the
  sources: it "looks up the KeyRecord, fails with KeyNotFound if absent, fails with
  VerifyOnlyKey if the record has no private handle, fails with InactiveKey if status is
  inactive", delegates to the suite's primitive, and a signature whose length is not the
  descriptor's is the error CorruptSuiteOutput.
\<close>

definition store_signWithKey :: "Provider \<Rightarrow> string \<Rightarrow> Uint8Array \<Rightarrow> KeyStore \<Rightarrow> (js_error + Uint8Array) \<times> KeyStore" where
  "store_signWithKey prov kid msg s =
     (case find (\<lambda>k. keyId (meta (keyRecord k)) = kid) (keyRecords s) of
        None \<Rightarrow> (Inl (Error ''KeyNotFound''), s)
      | Some k \<Rightarrow>
          (case privateHandle k of
             None \<Rightarrow> (Inl (Error ''VerifyOnlyKey''), s)
           | Some sk \<Rightarrow>
               if status (meta (keyRecord k)) = inactive then (Inl (Error ''InactiveKey''), s)
               else (let sig = sign prov (suiteId (meta (keyRecord k))) sk msg
                     in if map_option signatureLength (describe prov (suiteId (meta (keyRecord k))))
                             = Some (length sig)
                        then (Inr sig, s)
                        else (Inl (Error ''CorruptSuiteOutput''), s))))"

text \<open>
  Modelled from the spec: \<^verbatim>\<open>verify\<close> of the Signing Engine, whose code is not among the
  sources: it "looks up the KeyRecord (status is irrelevant), fails with KeyNotFound if
  absent, fails with MalformedSignature if the byte length does not match the
  SuiteDescriptor", and returns what the suite's verification primitive returns.
\<close>

definition store_verifySignature :: "Provider \<Rightarrow> string \<Rightarrow> Uint8Array \<Rightarrow> Uint8Array \<Rightarrow> KeyStore \<Rightarrow> (js_error + bool) \<times> KeyStore" where
  "store_verifySignature prov kid msg sig s =
     (case find (\<lambda>k. keyId (meta (keyRecord k)) = kid) (keyRecords s) of
        None \<Rightarrow> (Inl (Error ''KeyNotFound''), s)
      | Some k \<Rightarrow>
          if map_option signatureLength (describe prov (suiteId (meta (keyRecord k))))
               = Some (length sig)
          then (Inr (verify prov (suiteId (meta (keyRecord k))) (publicKey (keyRecord k)) msg sig), s)
          else (Inl (Error ''MalformedSignature''), s))"

text \<open>Modelled from the spec: the SDK object over the key store, from the four operations above.\<close>

definition store_sdk :: "Provider \<Rightarrow> KeyStore KeySDK" where
  "store_sdk prov =
     \<lparr>createKey = store_createKey prov,
      signWithKey = store_signWithKey prov,
      verifySignature = store_verifySignature prov,
      listKeysForAgent = store_listKeysForAgent\<rparr>"

text \<open>
  A small provider to run the model on: keys and signatures have the sizes of the four
  suites, a public key equals its private handle, and a signature repeats the first byte
  of the handle. The key identifiers are \<^verbatim>\<open>key-0\<close>, \<^verbatim>\<open>key-1\<close>, and so on.
\<close>

fun demo_sizes :: "SignatureSuite \<Rightarrow> SuiteDescriptor" where
  "demo_sizes bsv_ecdsa_secp256k1 = \<lparr>publicKeyLength = 33, signatureLength = 64\<rparr>"
| "demo_sizes ml_dsa_44 = \<lparr>publicKeyLength = 1312, signatureLength = 2420\<rparr>"
| "demo_sizes ml_dsa_65 = \<lparr>publicKeyLength = 1952, signatureLength = 3309\<rparr>"
| "demo_sizes ml_dsa_87 = \<lparr>publicKeyLength = 2592, signatureLength = 4627\<rparr>"

definition demo_provider :: Provider where
  "demo_provider =
     \<lparr>describe = (\<lambda>suite. Some (demo_sizes suite)),
      generateKeyPair = (\<lambda>suite n.
        Some (replicate (publicKeyLength (demo_sizes suite)) (of_nat n),
              replicate (publicKeyLength (demo_sizes suite)) (of_nat n))),
      sign = (\<lambda>suite sk msg. replicate (signatureLength (demo_sizes suite)) (hd (sk @ [0]))),
      verify = (\<lambda>suite pk msg sig. sig = replicate (signatureLength (demo_sizes suite)) (hd (pk @ [0]))),
      freshKeyId = (\<lambda>n. ''key-'' @ toString10 n)\<rparr>"

section \<open>Initial states and a store to run the model on\<close>

text \<open>The initial values that the sections pass to \<^verbatim>\<open>useState\<close>, and the empty key store.\<close>

definition KeyManagement_init :: KeyManagement where
  "KeyManagement_init = \<lparr>logs = [], isListing = False, isRotating = False, isGettingProfile = False\<rparr>"

definition KeyCreation_init :: KeyCreation where
  "KeyCreation_init = \<lparr>logs = [], mldsaVariant = ml_dsa_65, isCreatingEcdsa = False, isCreatingMldsa = False\<rparr>"

definition CustomMessage_init :: CustomMessage where
  "CustomMessage_init =
     \<lparr>logs = [], isSigning = False, message = [], selectedAlgorithm = alg_both,
      signatures = \<lparr>ecdsa = None, mldsa = None\<rparr>\<rparr>"

definition Signing_init :: Signing where
  "Signing_init = \<lparr>logs = [], isSigning = False, isSigningBoth = False\<rparr>"

definition KeyStore_empty :: KeyStore where
  "KeyStore_empty = \<lparr>keyRecords = [], issued = 0\<rparr>"

text \<open>
  A store with two keys of \<^verbatim>\<open>BrowserAgent\<close>: an active classical key \<^verbatim>\<open>key-0\<close> and an
  ML-DSA-65 key \<^verbatim>\<open>key-1\<close> that has been deactivated.
\<close>

definition demo_store :: KeyStore where
  "demo_store =
     \<lparr>keyRecords =
        [\<lparr>agentId = ''BrowserAgent'',
          keyRecord = \<lparr>meta = \<lparr>keyId = ''key-0'', suiteId = bsv_ecdsa_secp256k1,
                               usage = [''sign'', ''verify''], status = active\<rparr>,
                       publicKey = replicate 33 2\<rparr>,
          privateHandle = Some (replicate 33 2)\<rparr>,
         \<lparr>agentId = ''BrowserAgent'',
          keyRecord = \<lparr>meta = \<lparr>keyId = ''key-1'', suiteId = ml_dsa_65,
                               usage = [''sign'', ''verify''], status = inactive\<rparr>,
                       publicKey = replicate 1952 3\<rparr>,
          privateHandle = Some (replicate 1952 3)\<rparr>],
      issued = 2\<rparr>"

chapter \<open>Properties\<close>

section \<open>The hexadecimal codec\<close>

lemma hex_digit_facts:
  "list_all (\<lambda>d. is_hex_digit (hex_digits ! d) \<and> digit_value (hex_digits ! d) = d) [0..<16]"
  by code_simp

lemma hex_digit_ok: "d < 16 \<Longrightarrow> is_hex_digit (hex_digits ! d) \<and> digit_value (hex_digits ! d) = d"
  using hex_digit_facts by (simp add: list_all_iff)

lemma toString16_byte:
  assumes "n < 256"
  shows "padStart 2 ''0'' (toString16 n) = [hex_digits ! (n div 16), hex_digits ! (n mod 16)]"
proof (cases "n < 16")
  case True
  then show ?thesis
    by (subst toString16.simps) (simp add: padStart_def hex_digits_def)
next
  case False
  from assms have "n div 16 < 16" by simp
  then have "toString16 (n div 16) = [hex_digits ! (n div 16)]"
    by (subst toString16.simps) simp
  with False show ?thesis
    by (subst toString16.simps) (simp add: padStart_def)
qed

lemma encode_byte:
  "padStart 2 ''0'' (toString16 (unat (b::u8))) =
     [hex_digits ! (unat b div 16), hex_digits ! (unat b mod 16)]"
proof -
  have "unat b < 256" using unsigned_less [of b, where ?'a = nat] by simp
  then show ?thesis by (rule toString16_byte)
qed

lemma parseInt16_two:
  "is_hex_digit a \<Longrightarrow> is_hex_digit b \<Longrightarrow>
   parseInt16 [a, b] = Some (16 * digit_value a + digit_value b)"
  by (simp add: parseInt16_def)

lemma length_pair_bytes: "length (pair_bytes s) = length s div 2"
  by (induction s rule: pair_bytes.induct) auto

lemma pair_bytes_nth:
  "i < length s div 2 \<Longrightarrow>
   pair_bytes s ! i = of_nat (16 * digit_value (s ! (2 * i)) + digit_value (s ! (2 * i + 1)))"
proof (induction s arbitrary: i rule: pair_bytes.induct)
  case (1 a b rest)
  then show ?case by (cases i) auto
qed auto

lemma pair_bytes_map:
  "pair_bytes s =
     map (\<lambda>i. of_nat (16 * digit_value (s ! (2 * i)) + digit_value (s ! (2 * i + 1))))
         [0..<length s div 2]"
  by (rule nth_equalityI) (simp_all add: length_pair_bytes pair_bytes_nth)

text \<open>
  The loop invariant: once the loop is at the even position \<open>i\<close>, it leaves the first
  \<open>i div 2\<close> bytes alone and fills the rest from the digit pairs that follow. With an odd
  number of digits the last round writes at index \<open>length bytes\<close>, outside the array, and
  changes nothing.
\<close>

lemma hex_loop_pairs:
  "list_all is_hex_digit s \<Longrightarrow> even i \<Longrightarrow> length bytes = length s div 2 \<Longrightarrow>
   hex_loop s i bytes = take (i div 2) bytes @ pair_bytes (drop i s)"
proof (induction s i bytes rule: hex_loop.induct)
  case (1 s i bytes)
  show ?case
  proof (cases "i < length s")
    case False
    with 1(3,4) have "length bytes \<le> i div 2" by (auto elim!: evenE)
    with False show ?thesis by (subst hex_loop.simps) simp
  next
    case True
    let ?v = "parseInt16 (substr s i 2)"
    let ?bytes' = "typed_set bytes (i div 2) ?v"
    have len': "length ?bytes' = length s div 2" using 1(4) by (simp add: typed_set_def)
    have IH: "hex_loop s (i + 2) ?bytes' = take ((i + 2) div 2) ?bytes' @ pair_bytes (drop (i + 2) s)"
      using "1.IH" [OF True "1.prems"(1)] "1.prems"(2) len' by simp
    show ?thesis
    proof (cases "i + 1 < length s")
      case True
      have d: "drop i s = s ! i # s ! (i + 1) # drop (i + 2) s"
        using True by (metis Cons_nth_drop_Suc Suc_eq_plus1 add_2_eq_Suc' add_lessD1)
      have hx: "is_hex_digit (s ! i)" "is_hex_digit (s ! (i + 1))"
        using "1.prems"(1) True by (simp_all add: list_all_length)
      have v: "?v = Some (16 * digit_value (s ! i) + digit_value (s ! (i + 1)))"
        using hx by (simp add: substr_def d parseInt16_two)
      have k: "i div 2 < length bytes" using True "1.prems"(2,3) by (auto elim!: evenE)
      have "take ((i + 2) div 2) ?bytes' =
            take (i div 2) bytes @ [of_nat (16 * digit_value (s ! i) + digit_value (s ! (i + 1)))]"
        using k by (simp add: typed_set_def v take_Suc_conv_app_nth)
      with IH d \<open>i < length s\<close> show ?thesis by (subst hex_loop.simps) simp
    next
      case False
      with \<open>i < length s\<close> have e: "length s = i + 1" by simp
      then have k: "length bytes = i div 2" using "1.prems"(2,3) by (auto elim!: evenE)
      have d: "drop i s = [s ! i]" using e
        by (metis Cons_nth_drop_Suc Suc_eq_plus1 True drop_all order_refl)
      have "?bytes' = bytes" using k by (simp add: typed_set_def)
      with IH d e k \<open>i < length s\<close> show ?thesis by (subst hex_loop.simps) simp
    qed
  qed
qed

lemma new_Uint8Array_half: "new_Uint8Array (of_nat n / 2) = Inr (replicate (n div 2) 0)"
proof -
  have "\<lfloor>(of_nat n :: rat) / 2\<rfloor> = int (n div 2)"
    using floor_divide_of_nat_eq [of n 2, where ?'a = rat] by simp
  then show ?thesis by (simp add: new_Uint8Array_def ToIndex_def)
qed

lemma hexToUint8Array_pairs: "hexToUint8Array hex = Inr (pair_bytes (filter is_hex_digit hex))"
  by (simp add: hexToUint8Array_def new_Uint8Array_half hex_loop_pairs list_all_iff)

lemma pair_bytes_encode:
  "pair_bytes (filter is_hex_digit
     (concat (map (\<lambda>b. padStart 2 ''0'' (toString16 (unat b))) xs))) = xs"
proof (induction xs)
  case Nil
  show ?case by simp
next
  case (Cons b xs)
  have lt: "unat b < 256" using unsigned_less [of b, where ?'a = nat] by simp
  then have d: "unat b div 16 < 16" "unat b mod 16 < 16" by simp_all
  have "word_of_nat (16 * (unat b div 16) + unat b mod 16) = b" by simp
  with Cons d show ?case by (simp add: encode_byte hex_digit_ok)
qed

text \<open>Decoding what \<open>arrayToHex\<close> wrote gives back the bytes that it was told to keep.\<close>

lemma hexToUint8Array_arrayToHex: "hexToUint8Array (arrayToHex x n) = Inr (take n x)"
  by (simp add: hexToUint8Array_pairs arrayToHex_def pair_bytes_encode)

text \<open>The storage path, which encodes the whole key, does round-trip.\<close>

lemma hexToUint8Array_storage_hex: "hexToUint8Array (storage_hex x) = Inr x"
  by (simp add: hexToUint8Array_pairs storage_hex_def pair_bytes_encode)

text \<open>
  Claim C1 says that decoding the hexadecimal export of a public key gives the key back,
  for every byte array. The export path calls \<open>arrayToHex\<close> with its default length 32,
  which keeps the first 32 bytes only: for a 33-byte compressed secp256k1 key (the
  prefix 2 and 32 more bytes) the decoder returns 32 bytes, not the key.
\<close>

theorem export_roundtrip_loses_bytes:
  "hexToUint8Array (arrayToHex_default (2 # replicate 32 7)) = Inr (2 # replicate 31 7) \<and>
   hexToUint8Array (arrayToHex_default (2 # replicate 32 7)) \<noteq> Inr (2 # replicate 32 7)"
  by (simp add: arrayToHex_default_def hexToUint8Array_arrayToHex)

text \<open>
  Claim C8, as amended: \<open>hexToUint8Array\<close> removes every character that is not a
  hexadecimal digit and returns, for every input, the bytes read from digits \<open>2i\<close> and
  \<open>2i + 1\<close> for \<open>i\<close> below half the number of digits, rounded down. It never throws: with an
  odd number of digits the length of the typed array is truncated and the last digit is
  dropped.
\<close>

theorem hexToUint8Array_total:
  "hexToUint8Array hex =
     Inr (map (\<lambda>i. of_nat (16 * digit_value (filter is_hex_digit hex ! (2 * i))
                        + digit_value (filter is_hex_digit hex ! (2 * i + 1))))
              [0..<length (filter is_hex_digit hex) div 2])"
  using pair_bytes_map [of "filter is_hex_digit hex"] by (simp add: hexToUint8Array_pairs)

text \<open>
  Claim C8 as it was stated has the decoder throw whenever the number of digits is odd.
  The three digits of \<^verbatim>\<open>abc\<close> decode to the one byte \<^verbatim>\<open>0xab\<close>.
\<close>

theorem hexToUint8Array_odd_counterexample:
  "odd (length (filter is_hex_digit ''abc'')) \<and> hexToUint8Array ''abc'' = Inr [0xAB]"
  by (simp add: hexToUint8Array_pairs is_hex_digit_def digit_value_def)

section \<open>The statistics of the application\<close>

lemma app_step_counters:
  "signaturesCreated (stats (app_step a ev)) =
     signaturesCreated (stats a) + (if ev = StatsUpdate then 1 else 0)"
  "verifications (stats (app_step a ev)) =
     verifications (stats a) + (if ev = StatsUpdate then 1 else 0)"
  by (cases ev; simp add: handleKeyCreated_def handleStatsUpdate_def handleKeysRotated_def Let_def)+

lemma foldl_app_step_counters:
  "signaturesCreated (stats (foldl app_step a evs)) =
     signaturesCreated (stats a) + count_list evs StatsUpdate"
  "verifications (stats (foldl app_step a evs)) =
     verifications (stats a) + count_list evs StatsUpdate"
  by (induction evs arbitrary: a; simp add: app_step_counters)+

text \<open>
  Claim C9: in every reachable state of the application \<open>signaturesCreated\<close> equals
  \<open>verifications\<close>. Both start at 0; \<open>handleStatsUpdate\<close> adds exactly 1 to each and leaves
  the rest of the state alone; \<open>handleKeyCreated\<close> and \<open>handleKeysRotated\<close> change only
  \<open>keysCreated\<close> and the key identifiers. After any sequence of events both counters
  equal the number of \<open>handleStatsUpdate\<close> calls in it.
\<close>

theorem signaturesCreated_eq_verifications:
  "signaturesCreated (stats (app_run evs)) = verifications (stats (app_run evs)) \<and>
   signaturesCreated (stats (app_run evs)) = count_list evs StatsUpdate \<and>
   signaturesCreated (stats (app_run [])) = 0 \<and> verifications (stats (app_run [])) = 0 \<and>
   handleStatsUpdate a =
     a\<lparr>stats := (stats a)\<lparr>signaturesCreated := signaturesCreated (stats a) + 1,
                            verifications := verifications (stats a) + 1\<rparr>\<rparr> \<and>
   stats (handleKeyCreated keyId' ty a) = (stats a)\<lparr>keysCreated := keysCreated (stats a) + 1\<rparr> \<and>
   sdk (handleKeyCreated keyId' ty a) = sdk a \<and>
   stats (handleKeysRotated e m a) =
     (stats a)\<lparr>keysCreated := keysCreated (stats a) + (if truthy e then 1 else 0)
                                                    + (if truthy m then 1 else 0)\<rparr> \<and>
   sdk (handleKeysRotated e m a) = sdk a"
  by (simp add: app_run_def foldl_app_step_counters App_init_def
                handleKeyCreated_def handleStatsUpdate_def handleKeysRotated_def Let_def)

section \<open>Loading the SDK\<close>

text \<open>
  Claim C10: when \<^verbatim>\<open>window.LumenKeys\<close> is already set, \<open>loadSDKFromCDN\<close> resolves and
  leaves the window as it is, whatever the network would do: no script element is
  created or appended. So after a first call that loaded the SDK a second call resolves
  too, and the head still holds the one script element of the first call.
\<close>

theorem loadSDKFromCDN_present:
  "loadSDKFromCDN outcome (w\<lparr>LumenKeys := Some g\<rparr>) = (Inr (), w\<lparr>LumenKeys := Some g\<rparr>) \<and>
   fst (loadSDKFromCDN (Loaded (Some g)) (w\<lparr>LumenKeys := None\<rparr>)) = Inr () \<and>
   loadSDKFromCDN outcome (snd (loadSDKFromCDN (Loaded (Some g)) (w\<lparr>LumenKeys := None\<rparr>)))
     = (Inr (), snd (loadSDKFromCDN (Loaded (Some g)) (w\<lparr>LumenKeys := None\<rparr>))) \<and>
   length (document_head (snd (loadSDKFromCDN outcome
             (snd (loadSDKFromCDN (Loaded (Some g)) (w\<lparr>LumenKeys := None\<rparr>))))))
     = length (document_head w) + 1"
  by (simp add: loadSDKFromCDN_def Let_def)

section \<open>What the recording SDK and the logging do\<close>

lemma recording_simps:
  "createKey (recording k) agent suite (w, c) =
     (fst (createKey k agent suite w), snd (createKey k agent suite w),
      c @ [(CreateKey agent suite, returned (fst (createKey k agent suite w)))])"
  "signWithKey (recording k) kid msg (w, c) =
     (fst (signWithKey k kid msg w), snd (signWithKey k kid msg w),
      c @ [(SignWithKey kid msg, returned (fst (signWithKey k kid msg w)))])"
  "verifySignature (recording k) kid msg sig (w, c) =
     (fst (verifySignature k kid msg sig w), snd (verifySignature k kid msg sig w),
      c @ [(VerifySignature kid msg sig, returned (fst (verifySignature k kid msg sig w)))])"
  "listKeysForAgent (recording k) agent ao (w, c) =
     (fst (listKeysForAgent k agent ao w), snd (listKeysForAgent k agent ao w),
      c @ [(ListKeysForAgent agent ao, returned (fst (listKeysForAgent k agent ao w)))])"
  by (simp_all add: recording_def split: prod.splits)

lemma addLog_fields [simp]:
  "signatures (addLog m t st) = signatures st"
  "message (addLog m t st) = message st"
  "selectedAlgorithm (addLog m t st) = selectedAlgorithm st"
  "logs (addLog m t st') = logs st' @ [LogEntry m t]"
  by (simp_all add: addLog_def)

section \<open>The demonstration store\<close>

lemma demo_sign_key_0:
  "signWithKey (store_sdk demo_provider) ''key-0'' msg demo_store = (Inr (replicate 64 2), demo_store)"
  by (simp add: store_sdk_def store_signWithKey_def demo_provider_def demo_store_def)

lemma demo_sign_key_1:
  "signWithKey (store_sdk demo_provider) ''key-1'' msg demo_store =
     (Inl (Error ''InactiveKey''), demo_store)"
  by (simp add: store_sdk_def store_signWithKey_def demo_provider_def demo_store_def)

lemma demo_verify_key_0:
  "verifySignature (store_sdk demo_provider) ''key-0'' msg (replicate 64 2) demo_store =
     (Inr True, demo_store)"
  by (simp add: store_sdk_def store_verifySignature_def demo_provider_def demo_store_def)

lemma demo_listing:
  "fst (listKeysForAgent (store_sdk demo_provider) ''BrowserAgent'' (Some True) demo_store) =
     Inr [\<lparr>meta = \<lparr>keyId = ''key-0'', suiteId = bsv_ecdsa_secp256k1,
                   usage = [''sign'', ''verify''], status = active\<rparr>,
           publicKey = replicate 33 2\<rparr>]"
  by (simp add: store_sdk_def store_listKeysForAgent_def demo_store_def)

section \<open>Signing a custom message\<close>

lemma sign_block_signatures:
  "sign_block pn k sel kid h n m (st, w) = (r, st', w') \<Longrightarrow>
   signatures st' = signatures st \<and> selectedAlgorithm st' = selectedAlgorithm st"
  by (auto simp: sign_block_def Let_def split: prod.splits sum.splits option.splits if_splits)

text \<open>A signing statement that ends without an exception has made no call that threw.\<close>

lemma sign_block_recording:
  "sign_block pn (recording k) sel kid h n m (st, (w, c)) = (Inr entry, st', (w', c')) \<Longrightarrow>
   list_all snd c \<Longrightarrow> list_all snd c'"
  by (auto simp: sign_block_def Let_def recording_simps returned_def
           split: prod.splits sum.splits option.splits if_splits)

text \<open>On a recording SDK the statement does what it does on the SDK itself, and records its calls.\<close>

lemma sign_block_recording_eq:
  "sign_block (\<lambda>x. pn (fst x)) (recording k) sel kid h n m (st, (w, c)) =
     (case sign_block pn k sel kid h n m (st, w) of
        (r, st', w') \<Rightarrow> (r, st', (w', c @ sign_block_calls k sel kid m w)))"
  by (auto simp: sign_block_def sign_block_calls_def Let_def recording_simps returned_def
           split: prod.splits sum.splits option.splits)

lemma log_comparison_signatures [simp]: "signatures (log_comparison s st) = signatures st"
  by (simp add: log_comparison_def split: option.splits)

lemma handleSignMessage_try_error:
  "handleSignMessage_try pn k ids f (st, p, w) = (Some e, st', p', w') \<Longrightarrow>
   signatures st' = signatures st \<and> p' = p"
  by (auto simp: handleSignMessage_try_def Let_def
           split: prod.splits sum.splits
           dest!: sign_block_signatures)

lemma handleSignMessage_try_recording:
  "handleSignMessage_try pn (recording k) ids f (st, p, (w, c)) = (None, st', p', (w', c')) \<Longrightarrow>
   list_all snd c \<Longrightarrow> list_all snd c'"
  by (auto simp: handleSignMessage_try_def Let_def
           split: prod.splits sum.splits
           dest: sign_block_recording)

lemma handleSignMessage_try_transparent:
  "(case handleSignMessage_try (\<lambda>x. pn (fst x)) (recording k) ids f (st, p, (w, c)) of
      (r, st', p', (w', c')) \<Rightarrow> (r, st', p', w')) = handleSignMessage_try pn k ids f (st, p, w)"
  by (simp add: handleSignMessage_try_def Let_def sign_block_recording_eq
           split: prod.split sum.split)

text \<open>
  Recording changes nothing else: without the list of calls, the handler's result on the
  recording SDK is its result on the SDK itself.
\<close>

lemma handleSignMessage_transparent:
  "forget_calls (handleSignMessage (\<lambda>x. pn (fst x)) (Some (recording k)) ids f (st, p, (w, c))) =
   handleSignMessage pn (Some k) ids f (st, p, w)"
proof -
  let ?st0 = "st\<lparr>logs := [], isSigning := True, signatures := \<lparr>ecdsa = None, mldsa = None\<rparr>\<rparr>"
  obtain r st1 p1 w1 c1 where
    t: "handleSignMessage_try (\<lambda>x. pn (fst x)) (recording k) ids f (?st0, p, (w, c))
          = (r, st1, p1, (w1, c1))"
    by (metis prod.exhaust)
  then have "handleSignMessage_try pn k ids f (?st0, p, w) = (r, st1, p1, w1)"
    using handleSignMessage_try_transparent [of pn k ids f ?st0 p w c] by simp
  with t show ?thesis
    by (simp add: forget_calls_def handleSignMessage_def split: option.splits)
qed

text \<open>
  Claim C3: signing a message with the listed keys is all-or-nothing in
  \<open>handleSignMessage\<close>. For every SDK, clock, pair of key identifiers and callback: if any
  \<open>signWithKey\<close> call that the handler makes throws, then the \<open>signatures\<close> state is empty
  afterwards and the parent's state is the one before the call, whatever the callback
  \<open>onStatsUpdate\<close> would do to it; the callback has not been invoked.
\<close>

theorem handleSignMessage_all_or_nothing:
  assumes "list_ex failed_sign
             (snd (snd (snd (handleSignMessage pn (Some (recording k)) ids onStatsUpdate (st, p, (w, []))))))"
  shows "signatures (fst (handleSignMessage pn (Some (recording k)) ids onStatsUpdate (st, p, (w, []))))
           = \<lparr>ecdsa = None, mldsa = None\<rparr> \<and>
         fst (snd (handleSignMessage pn (Some (recording k)) ids onStatsUpdate (st, p, (w, [])))) = p"
proof (cases "trim (message st) = []")
  case True
  with assms show ?thesis by (simp add: handleSignMessage_def)
next
  case False
  let ?st0 = "st\<lparr>logs := [], isSigning := True, signatures := \<lparr>ecdsa = None, mldsa = None\<rparr>\<rparr>"
  obtain r st1 p1 w1 c1 where
    t: "handleSignMessage_try pn (recording k) ids onStatsUpdate (?st0, p, (w, [])) = (r, st1, p1, (w1, c1))"
    by (metis prod.exhaust)
  show ?thesis
  proof (cases r)
    case None
    with t have "list_all snd c1" by (auto dest: handleSignMessage_try_recording)
    then have "\<not> list_ex failed_sign c1"
      by (auto simp: list_all_iff list_ex_iff failed_sign_def)
    with assms False t None show ?thesis by (simp add: handleSignMessage_def)
  next
    case (Some e)
    with t have "signatures st1 = \<lparr>ecdsa = None, mldsa = None\<rparr> \<and> p1 = p"
      by (auto dest: handleSignMessage_try_error)
    with False t Some show ?thesis by (simp add: handleSignMessage_def)
  qed
qed

text \<open>
  On the store with the active key \<^verbatim>\<open>key-0\<close> and the inactive key \<^verbatim>\<open>key-1\<close>: the
  classical signature is made and verified, the ML-DSA call throws, and nothing of the
  first signature is left in the state.
\<close>

lemma demo_failed_sign:
  "list_ex failed_sign
     (snd (snd (snd (handleSignMessage (\<lambda>w. 0) (Some (recording (store_sdk demo_provider)))
        \<lparr>ecdsaKeyId = Some ''key-0'', mldsaKeyId = Some ''key-1''\<rparr> handleStatsUpdate
        (CustomMessage_init\<lparr>message := ''hi''\<rparr>, App_init :: unit App, (demo_store, []))))))"
  by (simp add: handleSignMessage_def handleSignMessage_try_def sign_block_def Let_def
                recording_simps demo_sign_key_0 demo_sign_key_1 demo_verify_key_0
                CustomMessage_init_def trim_def is_white_space_def returned_def failed_sign_def)

theorem handleSignMessage_all_or_nothing_witness:
  "list_ex failed_sign
     (snd (snd (snd (handleSignMessage (\<lambda>w. 0) (Some (recording (store_sdk demo_provider)))
        \<lparr>ecdsaKeyId = Some ''key-0'', mldsaKeyId = Some ''key-1''\<rparr> handleStatsUpdate
        (CustomMessage_init\<lparr>message := ''hi''\<rparr>, App_init :: unit App, (demo_store, [])))))) \<and>
   signatures (fst (handleSignMessage (\<lambda>w. 0) (Some (recording (store_sdk demo_provider)))
        \<lparr>ecdsaKeyId = Some ''key-0'', mldsaKeyId = Some ''key-1''\<rparr> handleStatsUpdate
        (CustomMessage_init\<lparr>message := ''hi''\<rparr>, App_init :: unit App, (demo_store, []))))
     = \<lparr>ecdsa = None, mldsa = None\<rparr> \<and>
   fst (snd (handleSignMessage (\<lambda>w. 0) (Some (recording (store_sdk demo_provider)))
        \<lparr>ecdsaKeyId = Some ''key-0'', mldsaKeyId = Some ''key-1''\<rparr> handleStatsUpdate
        (CustomMessage_init\<lparr>message := ''hi''\<rparr>, App_init :: unit App, (demo_store, [])))) = App_init"
  using demo_failed_sign handleSignMessage_all_or_nothing [OF demo_failed_sign] by simp

section \<open>Signing with both algorithms\<close>

text \<open>Recording changes nothing else in this handler either.\<close>

lemma handleSignWithBoth_transparent:
  "forget_calls (handleSignWithBoth (\<lambda>x. pn (fst x)) (Some (recording k)) ids f (st, p, (w, c))) =
   handleSignWithBoth pn (Some k) ids f (st, p, w)"
  by (auto simp: forget_calls_def handleSignWithBoth_def handleSignWithBoth_try_def Let_def
                 recording_simps
           split: prod.splits sum.splits option.splits)

text \<open>
  Claim C7: \<open>handleSignWithBoth\<close> makes its two \<open>signWithKey\<close> calls one after the other, in
  the order classical, ML-DSA. For every SDK the calls it receives are: the classical
  call alone when that call throws, so no second signature is asked for; otherwise the
  classical call followed by the ML-DSA call, which runs in the world that the first
  call left behind.
\<close>

theorem handleSignWithBoth_sequential:
  assumes "e \<noteq> []" "m \<noteq> []"
  shows "snd (snd (handleSignWithBoth pn (Some (recording k))
                    \<lparr>ecdsaKeyId = Some e, mldsaKeyId = Some m\<rparr> onStatsUpdate (st, p, (w, [])))) =
         (let msg = TextEncoder_encode ''Hybrid signature test message'';
              first = signWithKey k e msg w;
              second = signWithKey k m msg (snd first)
          in if returned (fst first)
             then (snd second, [(SignWithKey e msg, True), (SignWithKey m msg, returned (fst second))])
             else (snd first, [(SignWithKey e msg, False)]))"
  using assms
  by (auto simp: handleSignWithBoth_def handleSignWithBoth_try_def Let_def recording_simps returned_def
           split: prod.splits sum.splits option.splits)

text \<open>With the inactive key first, the one call that throws is the only call.\<close>

theorem handleSignWithBoth_sequential_witness:
  "''key-1'' \<noteq> [] \<and> ''key-0'' \<noteq> [] \<and>
   snd (snd (handleSignWithBoth (\<lambda>w. 0) (Some (recording (store_sdk demo_provider)))
               \<lparr>ecdsaKeyId = Some ''key-1'', mldsaKeyId = Some ''key-0''\<rparr> handleStatsUpdate
               (Signing_init, App_init :: unit App, (demo_store, [])))) =
     (demo_store, [(SignWithKey ''key-1'' (TextEncoder_encode ''Hybrid signature test message''), False)])"
proof -
  have e: "''key-1'' \<noteq> []" and m: "''key-0'' \<noteq> []" by simp_all
  show ?thesis
    using handleSignWithBoth_sequential [OF e m, of "\<lambda>w. 0" "store_sdk demo_provider"
            handleStatsUpdate Signing_init "App_init :: unit App" demo_store]
    by (simp add: Let_def demo_sign_key_1 returned_def)
qed

section \<open>The profile\<close>

lemma handleGetProfile_transparent:
  "forget_calls (handleGetProfile (Some (recording k)) (st, p, (w, c))) =
   handleGetProfile (Some k) (st, p, w)"
  by (auto simp: forget_calls_def handleGetProfile_def handleGetProfile_try_def Let_def
                 recording_simps
           split: prod.splits sum.splits option.splits)

text \<open>
  Claim C5: \<open>handleGetProfile\<close> is a read over \<^verbatim>\<open>listKeysForAgent('BrowserAgent', true)\<close>.
  For every SDK whose listing returns \<open>keys\<close>: that listing is the only call the handler
  makes, the world is the one the listing left, the parent's state, statistics
  included, is untouched, and the count in the third log line is the number of records
  of \<open>keys\<close> whose status is active. Over the key store, where listing reads only, the store
  after the handler is the store before it.
\<close>

theorem handleGetProfile_reads_only:
  assumes "fst (listKeysForAgent k ''BrowserAgent'' (Some True) w) = Inr keys"
  shows "logs (fst (handleGetProfile (Some (recording k)) (st, p, (w, [])))) ! 2 =
           LogEntry (''   Total active keys: ''
                     @ toString10 (length (filter (\<lambda>r. status (meta r) = active) keys))) info \<and>
         fst (snd (handleGetProfile (Some (recording k)) (st, p, (w, [])))) = p \<and>
         snd (snd (handleGetProfile (Some (recording k)) (st, p, (w, [])))) =
           (snd (listKeysForAgent k ''BrowserAgent'' (Some True) w),
            [(ListKeysForAgent ''BrowserAgent'' (Some True), True)]) \<and>
         snd (snd (handleGetProfile (Some (store_sdk prov)) (st, p, s))) = s"
  using assms
  by (simp add: handleGetProfile_def handleGetProfile_try_def Let_def recording_simps returned_def
                store_sdk_def store_listKeysForAgent_def addLog_def
           split: prod.splits)

text \<open>On the store with one active and one inactive key the profile counts one key.\<close>

theorem handleGetProfile_reads_only_witness:
  "logs (fst (handleGetProfile (Some (recording (store_sdk demo_provider)))
                (KeyManagement_init, (App_init :: unit App), (demo_store, [])))) ! 2 =
     LogEntry ''   Total active keys: 1'' info \<and>
   snd (snd (handleGetProfile (Some (recording (store_sdk demo_provider)))
                (KeyManagement_init, (App_init :: unit App), (demo_store, [])))) =
     (demo_store, [(ListKeysForAgent ''BrowserAgent'' (Some True), True)])"
  using handleGetProfile_reads_only [OF demo_listing, of KeyManagement_init "App_init :: unit App"]
  by (simp add: toString10.simps hex_digits_def store_sdk_def store_listKeysForAgent_def)

section \<open>Rotation\<close>

lemma handleRotateKeys_transparent:
  "forget_calls (handleRotateKeys (Some (recording k)) ids g f (st, p, (w, c))) =
   handleRotateKeys (Some k) ids g f (st, p, w)"
  by (auto simp: forget_calls_def handleRotateKeys_def handleRotateKeys_try_def Let_def
                 recording_simps
           split: prod.splits sum.splits option.splits)

lemma handleRotateKeys_calls:
  "list_all (\<lambda>c. is_CreateKey (fst c))
     (snd (snd (snd (handleRotateKeys (Some (recording k)) ids onKeysRotated onStatsUpdate
                       (st, p, (w, []))))))"
  by (auto simp: handleRotateKeys_def handleRotateKeys_try_def Let_def recording_simps
           split: prod.splits sum.splits option.splits if_splits)

lemma store_createKey_appends:
  "store_createKey prov agent suite s = (r, s') \<Longrightarrow> \<exists>ys. keyRecords s' = keyRecords s @ ys"
  by (auto simp: store_createKey_def Let_def split: option.splits prod.splits)

lemma handleRotateKeys_store:
  "take (length (keyRecords s))
     (keyRecords (snd (snd (handleRotateKeys (Some (store_sdk prov)) ids onKeysRotated onStatsUpdate
                              (st, p, s)))))
   = keyRecords s"
  by (auto simp: handleRotateKeys_def handleRotateKeys_try_def Let_def store_sdk_def
           split: prod.splits sum.splits option.splits if_splits
           dest!: store_createKey_appends)

text \<open>
  Claim C6: rotation never deactivates a predecessor. Every call that \<open>handleRotateKeys\<close>
  makes, to any SDK, is a \<open>createKey\<close>. Over the key store, whose \<open>createKey\<close> appends a
  record, the records that were there before the rotation are there after it, at the
  same places and with every field as it was, the status included; this holds after a
  rotation that failed half-way as well.
\<close>

theorem handleRotateKeys_keeps_records:
  "list_all (\<lambda>c. is_CreateKey (fst c))
     (snd (snd (snd (handleRotateKeys (Some (recording k)) ids onKeysRotated onStatsUpdate
                       (st, p, (w, [])))))) \<and>
   take (length (keyRecords s))
     (keyRecords (snd (snd (handleRotateKeys (Some (store_sdk prov)) ids onKeysRotated onStatsUpdate
                              (st, p, s)))))
   = keyRecords s"
  by (simp add: handleRotateKeys_calls handleRotateKeys_store)

text \<open>
  The suite of the ML-DSA replacement is the constant \<^verbatim>\<open>ml-dsa-65\<close>: whatever SDK is
  behind \<open>handleRotateKeys\<close> and whatever key \<open>mldsaKeyId\<close> names, this is the one call.
\<close>

lemma handleRotateKeys_requests_ml_dsa_65:
  "map fst (snd (snd (snd (handleRotateKeys (Some (recording k))
       \<lparr>ecdsaKeyId = None, mldsaKeyId = Some ''key-0''\<rparr> onKeysRotated onStatsUpdate
       (st, p, (w, []))))))
   = [CreateKey ''BrowserAgent'' ml_dsa_65]"
  by (simp add: handleRotateKeys_def handleRotateKeys_try_def Let_def recording_simps truthy_def
           split: prod.splits sum.splits option.splits)

text \<open>
  Claim C2 says that rotation replaces each current key by a key of the same suite, so
  that an agent with exactly one active key of suite S gets exactly one new key of
  suite S. Start from the empty store, choose the variant \<^verbatim>\<open>ml-dsa-44\<close> and create the
  ML-DSA key with \<open>handleCreateMLDSA\<close>: the agent has exactly one active key, of suite
  \<^verbatim>\<open>ml-dsa-44\<close>. Rotating then adds exactly one key, and its suite is \<^verbatim>\<open>ml-dsa-65\<close>.
\<close>

theorem rotation_replaces_ml_dsa_44_by_ml_dsa_65:
  "(let sdk = Some (store_sdk demo_provider);
        created = handleCreateMLDSA sdk handleKeyCreated handleStatsUpdate
                    (KeyCreation_init\<lparr>mldsaVariant := ml_dsa_44\<rparr>, App_init :: unit App, KeyStore_empty);
        a1 = fst (snd created);
        rotated = handleRotateKeys sdk \<lparr>ecdsaKeyId = ecdsaKeyId a1, mldsaKeyId = mldsaKeyId a1\<rparr>
                    handleKeysRotated handleStatsUpdate (KeyManagement_init, a1, snd (snd created))
    in map (\<lambda>k. (agentId k, suiteId (meta (keyRecord k)), status (meta (keyRecord k))))
           (keyRecords (snd (snd created))) = [(''BrowserAgent'', ml_dsa_44, active)] \<and>
       map (\<lambda>k. (agentId k, suiteId (meta (keyRecord k)), status (meta (keyRecord k))))
           (keyRecords (snd (snd rotated)))
         = [(''BrowserAgent'', ml_dsa_44, active), (''BrowserAgent'', ml_dsa_65, active)])"
  by (simp add: Let_def handleCreateMLDSA_def handleRotateKeys_def handleRotateKeys_try_def
                store_sdk_def store_createKey_def demo_provider_def KeyStore_empty_def
                KeyCreation_init_def KeyManagement_init_def App_init_def handleKeyCreated_def
                truthy_def toString10.simps hex_digits_def handleStatsUpdate_def addLog_def)

end
